theory Spec2Isabelle
  imports Main "HOL-Library.Word"
begin

section \<open>Globals (runtime/globals.h)\<close>

text \<open>
  \<^verbatim>\<open>typedef uint8_t byte;\<close> Addresses (\<^verbatim>\<open>byte*\<close>, \<^verbatim>\<open>Object*\<close>, \<^verbatim>\<open>Object**\<close>,
  \<^verbatim>\<open>uintptr_t\<close>) are natural numbers, \<open>0\<close> being the null pointer. The code adds a
  card size or a field offset to an address inside a mapped heap and nothing else, so
  no address arithmetic of the model reaches the end of the address space.
\<close>

type_synonym byte = "8 word"
type_synonym addr = nat

definition nullptr :: addr where
  "nullptr = 0"

section \<open>Spaces (runtime/gc/space/space.h)\<close>

datatype GcRetentionPolicy =
  kGcRetentionPolicyNeverCollect
  | kGcRetentionPolicyAlwaysCollect
  | kGcRetentionPolicyFullCollect

text \<open>
  \<^verbatim>\<open>class ContinuousSpace : public Space\<close>, with the fields \<^verbatim>\<open>name_\<close>,
  \<^verbatim>\<open>gc_retention_policy_\<close>, \<^verbatim>\<open>begin_\<close>, \<^verbatim>\<open>end_\<close> and \<^verbatim>\<open>limit_\<close> (an identifier
  cannot end in an underscore here, and \<open>begin\<close> and \<open>end\<close> are keywords).
  \<^verbatim>\<open>GetLiveBitmap()\<close> is pure virtual in space.h; the bitmap the subclass returns is
  the field \<open>live_bitmap\<close>.

  Modelled from the spec: space_bitmap.h and space_bitmap-inl.h are not under src/. The
  spec's bitmap records, per heap-aligned slot, whether an object's header starts there:
  a predicate on addresses (\<^verbatim>\<open>SpaceBitmap::Test\<close>).
\<close>

type_synonym SpaceBitmap = "addr \<Rightarrow> bool"

record ContinuousSpace =
  space_name :: string
  gc_retention_policy :: GcRetentionPolicy
  space_begin :: addr
  space_end :: addr
  space_limit :: addr
  live_bitmap :: SpaceBitmap

definition Begin :: "ContinuousSpace \<Rightarrow> addr" where
  "Begin space = space_begin space"

definition End :: "ContinuousSpace \<Rightarrow> addr" where
  "End space = space_end space"

definition Limit :: "ContinuousSpace \<Rightarrow> addr" where
  "Limit space = space_limit space"

definition HasAddress :: "ContinuousSpace \<Rightarrow> addr \<Rightarrow> bool" where
  "HasAddress space obj = (obj \<ge> Begin space \<and> obj < Limit space)"

definition Contains :: "ContinuousSpace \<Rightarrow> addr \<Rightarrow> bool" where
  "Contains space obj = HasAddress space obj"

definition GetLiveBitmap :: "ContinuousSpace \<Rightarrow> SpaceBitmap" where
  "GetLiveBitmap space = live_bitmap space"

text \<open>
  Modelled from the spec: \<^verbatim>\<open>SpaceBitmap::VisitMarkedRange\<close> (space_bitmap-inl.h) is not
  under src/. It hands every marked object whose header lies in
  \<open>[visit_begin, visit_end)\<close> to the visitor, in address order.
\<close>

definition MarkedRange :: "SpaceBitmap \<Rightarrow> addr \<Rightarrow> addr \<Rightarrow> addr list" where
  "MarkedRange bitmap visit_begin visit_end = filter bitmap [visit_begin ..< visit_end]"

definition VisitMarkedRange ::
  "SpaceBitmap \<Rightarrow> addr \<Rightarrow> addr \<Rightarrow> (addr \<Rightarrow> 's \<Rightarrow> 's) \<Rightarrow> 's \<Rightarrow> 's" where
  "VisitMarkedRange bitmap visit_begin visit_end visitor s =
     fold visitor (MarkedRange bitmap visit_begin visit_end) s"

section \<open>Card table\<close>

text \<open>
  Modelled from the spec: card_table.h and card_table-inl.h are not under src/. The spec
  gives a byte per card, the three states Clean, Dirty and Aged, and a power-of-two card
  size with \<^verbatim>\<open>card_table[address >> shift]\<close>; it gives no value for a state or for the
  shift, so the static members \<^verbatim>\<open>CardTable::kCardClean\<close>, \<^verbatim>\<open>kCardDirty\<close> and
  \<^verbatim>\<open>kCardShift\<close> are fields here. A card's address is its index in the table.
\<close>

record CardTable =
  kCardClean :: byte
  kCardDirty :: byte
  kCardAged :: byte
  kCardShift :: nat
  card_bytes :: "addr \<Rightarrow> byte"

definition kCardSize :: "CardTable \<Rightarrow> nat" where
  "kCardSize card_table = 2 ^ kCardShift card_table"

definition CardFromAddr :: "CardTable \<Rightarrow> addr \<Rightarrow> addr" where
  "CardFromAddr card_table a = a div kCardSize card_table"

definition AddrFromCard :: "CardTable \<Rightarrow> addr \<Rightarrow> addr" where
  "AddrFromCard card_table card_addr = card_addr * kCardSize card_table"

text \<open>Modelled from the spec: \<^verbatim>\<open>mark(address)\<close> sets the card containing the address to Dirty.\<close>

definition MarkCard :: "addr \<Rightarrow> CardTable \<Rightarrow> CardTable" where
  "MarkCard a card_table =
     card_table\<lparr>card_bytes := (card_bytes card_table)
       (CardFromAddr card_table a := kCardDirty card_table)\<rparr>"

text \<open>
  Modelled from the spec: \<^verbatim>\<open>AgeCardVisitor\<close> (gc/heap.h) is not under src/. The age
  function moves Dirty to Aged and every other state to Clean.
\<close>

definition AgeCardVisitor :: "CardTable \<Rightarrow> byte \<Rightarrow> byte" where
  "AgeCardVisitor card_table card_byte =
     (if card_byte = kCardDirty card_table then kCardAged card_table else kCardClean card_table)"

text \<open>
  Modelled from the spec: \<^verbatim>\<open>CardTable::ModifyCardsAtomic\<close> (card_table-inl.h) is not
  under src/. For every card fully or partially overlapping \<open>[scan_begin, scan_end)\<close>,
  in address order, it reads the byte, computes the new value with the age function,
  writes it back and reports the card with its old and new value to the second visitor.
  The compare-and-swap loop is one step of this sequential model: the value it reports
  as expected is the value the successful exchange replaced.
\<close>

definition ScannedCards :: "CardTable \<Rightarrow> addr \<Rightarrow> addr \<Rightarrow> addr list" where
  "ScannedCards card_table scan_begin scan_end =
     (if scan_begin < scan_end
      then [CardFromAddr card_table scan_begin ..<
            CardFromAddr card_table (scan_end + kCardSize card_table - 1)]
      else [])"

fun ModifyCards ::
  "(byte \<Rightarrow> byte) \<Rightarrow> (addr \<Rightarrow> byte \<Rightarrow> byte \<Rightarrow> 's \<Rightarrow> 's) \<Rightarrow> addr list \<Rightarrow>
   (addr \<Rightarrow> byte) \<times> 's \<Rightarrow> (addr \<Rightarrow> byte) \<times> 's" where
  "ModifyCards visitor modified [] (bytes, s) = (bytes, s)"
| "ModifyCards visitor modified (card_addr # cards) (bytes, s) =
     (let expected_value = bytes card_addr;
          new_value = visitor expected_value
      in ModifyCards visitor modified cards
           (bytes(card_addr := new_value), modified card_addr expected_value new_value s))"

definition ModifyCardsAtomic ::
  "CardTable \<Rightarrow> addr \<Rightarrow> addr \<Rightarrow> (byte \<Rightarrow> byte) \<Rightarrow> (addr \<Rightarrow> byte \<Rightarrow> byte \<Rightarrow> 's \<Rightarrow> 's) \<Rightarrow>
   's \<Rightarrow> CardTable \<times> 's" where
  "ModifyCardsAtomic card_table scan_begin scan_end visitor modified s =
     (case ModifyCards visitor modified (ScannedCards card_table scan_begin scan_end)
             (card_bytes card_table, s) of
        (bytes, s') \<Rightarrow> (card_table\<lparr>card_bytes := bytes\<rparr>, s'))"

section \<open>Heap\<close>

text \<open>
  The part of \<^verbatim>\<open>gc::Heap\<close> the mod-union tables read and write: the card table, the
  continuous spaces, and the object memory. \<open>memory\<close> gives, for the address of a
  reference field (an \<^verbatim>\<open>Object**\<close>), the reference stored there.

  Modelled from the spec: \<^verbatim>\<open>MarkSweep::VisitObjectReferences\<close> (mark_sweep-inl.h) and
  the object layout (mirror/object.h) are not under src/. The spec's object walker
  invokes the visitor once per outgoing reference of an object;
  \<open>reference_offsets\<close> gives the offsets of the reference fields of the object at an
  address, in the order the walker visits them.
\<close>

record Heap =
  card_table :: CardTable
  continuous_spaces :: "ContinuousSpace list"
  memory :: "addr \<Rightarrow> addr"
  reference_offsets :: "addr \<Rightarrow> nat list"

definition GetCardTable :: "Heap \<Rightarrow> CardTable" where
  "GetCardTable heap = card_table heap"

text \<open>
  Modelled from the spec: mirror/object.h is not under src/. The spec's slot address is
  the address of a reference field within an object: the field of \<^verbatim>\<open>GetFieldObjectAddr\<close>
  and \<^verbatim>\<open>SetFieldPtr\<close> lies at the object's address plus the field's offset.
\<close>

definition GetFieldObjectAddr :: "addr \<Rightarrow> nat \<Rightarrow> addr" where
  "GetFieldObjectAddr obj offset = obj + offset"

definition SetFieldPtr :: "addr \<Rightarrow> nat \<Rightarrow> addr \<Rightarrow> Heap \<Rightarrow> Heap" where
  "SetFieldPtr obj offset new_value heap =
     heap\<lparr>memory := (memory heap)(GetFieldObjectAddr obj offset := new_value)\<rparr>"

text \<open>
  The walker reads each field when it reaches it, so a visitor that writes a field is
  seen by the reads that follow: the heap is threaded through the visit.
\<close>

fun VisitFields ::
  "addr \<Rightarrow> (addr \<Rightarrow> addr \<Rightarrow> nat \<Rightarrow> Heap \<times> 's \<Rightarrow> Heap \<times> 's) \<Rightarrow> nat list \<Rightarrow>
   Heap \<times> 's \<Rightarrow> Heap \<times> 's" where
  "VisitFields obj visitor [] (heap, s) = (heap, s)"
| "VisitFields obj visitor (offset # offsets) (heap, s) =
     VisitFields obj visitor offsets
       (visitor obj (memory heap (GetFieldObjectAddr obj offset)) offset (heap, s))"

definition VisitObjectReferences ::
  "addr \<Rightarrow> (addr \<Rightarrow> addr \<Rightarrow> nat \<Rightarrow> Heap \<times> 's \<Rightarrow> Heap \<times> 's) \<Rightarrow> Heap \<times> 's \<Rightarrow> Heap \<times> 's" where
  "VisitObjectReferences obj visitor hs =
     VisitFields obj visitor (reference_offsets (fst hs) obj) hs"

text \<open>
  Modelled from the spec: \<^verbatim>\<open>Heap::FindContinuousSpaceFromObject\<close> (gc/heap.cc) is not
  under src/. It returns the first continuous space that contains the address, and
  null (\<open>None\<close>) when there is none.
\<close>

definition FindContinuousSpaceFromObject :: "Heap \<Rightarrow> addr \<Rightarrow> ContinuousSpace option" where
  "FindContinuousSpaceFromObject heap obj =
     find (\<lambda>space. Contains space obj) (continuous_spaces heap)"

text \<open>
  Modelled from the spec: \<^verbatim>\<open>Heap::IsLiveObjectLocked\<close> (gc/heap.cc) is not under src/.
  An object is live when the live bitmap of the space that contains it has it marked.
\<close>

definition IsLiveObjectLocked :: "Heap \<Rightarrow> addr \<Rightarrow> bool" where
  "IsLiveObjectLocked heap obj =
     (case FindContinuousSpaceFromObject heap obj of
        None \<Rightarrow> False
      | Some space \<Rightarrow> GetLiveBitmap space obj)"

section \<open>Failures\<close>

text \<open>
  What the process logs before it stops, and why it stops. \<^verbatim>\<open>CHECK\<close> and
  \<^verbatim>\<open>LOG(FATAL)\<close> abort the process; dereferencing the null space that
  \<^verbatim>\<open>FindContinuousSpaceFromObject\<close> returned ends it as well. \<^verbatim>\<open>DCHECK\<close> is
  compiled out of a release build and is no branch of the model.
\<close>

datatype LogLine =
  INFO_ObjectReferences addr addr
  | INFO_FromSpace string GcRetentionPolicy
  | INFO_ToSpace string GcRetentionPolicy
  | DumpSpaces
  | FATAL string
  | ERROR string
  | PLOG_ERROR string
  | INFO string
  | VLOG string

datatype error =
  NullSpace addr
  | CHECK_failed string
  | LOG_FATAL "LogLine list"

section \<open>Mod-union tables (runtime/gc/accounting/mod_union_table.cc)\<close>

subsection \<open>Containers\<close>

text \<open>
  Modelled from the spec: mod_union_table.h and safe_map.h are not under src/.
  \<^verbatim>\<open>ModUnionTable::CardSet\<close> is the set type whose one-argument \<^verbatim>\<open>insert\<close> the
  visitor of both variants calls: keys are unique, and iterating a \<^verbatim>\<open>std::set\<close> yields
  them in ascending order. The model is the list that iteration yields.
\<close>

type_synonym CardSet = "addr list"

definition CardSet_insert :: "addr \<Rightarrow> CardSet \<Rightarrow> CardSet" where
  "CardSet_insert card_addr cards = insort_insert card_addr cards"

text \<open>
  Modelled from the spec: safe_map.h is not under src/. The spec's \<^verbatim>\<open>references\<close> is a
  mapping from card address to a sequence of slot addresses;
  \<^verbatim>\<open>SafeMap<const byte*, std::vector<Object**>>\<close> is an ordered map, here the list of its
  entries in key order. \<^verbatim>\<open>find\<close> looks a key up, \<^verbatim>\<open>Put\<close> inserts an entry for a key
  that has none (an insert into a \<^verbatim>\<open>std::map\<close> leaves an existing entry alone), and
  \<^verbatim>\<open>found->second = v\<close> replaces the value of the entry found.
\<close>

type_synonym 'v SafeMap = "(addr \<times> 'v) list"

definition SafeMap_find :: "addr \<Rightarrow> 'v SafeMap \<Rightarrow> 'v option" where
  "SafeMap_find k m = map_of m k"

fun SafeMap_Put :: "addr \<Rightarrow> 'v \<Rightarrow> 'v SafeMap \<Rightarrow> 'v SafeMap" where
  "SafeMap_Put k v [] = [(k, v)]"
| "SafeMap_Put k v ((k', v') # m) =
     (if k < k' then (k, v) # (k', v') # m
      else if k = k' then (k', v') # m
      else (k', v') # SafeMap_Put k v m)"

fun SafeMap_assign :: "addr \<Rightarrow> 'v \<Rightarrow> 'v SafeMap \<Rightarrow> 'v SafeMap" where
  "SafeMap_assign k v [] = []"
| "SafeMap_assign k v ((k', v') # m) =
     (if k = k' then (k', v) # m else (k', v') # SafeMap_assign k v m)"

subsection \<open>The two tables\<close>

text \<open>
  The classes are declared in mod_union_table.h, which is not under src/; their fields
  are the ones this file uses. \<^verbatim>\<open>ModUnionTable\<close> holds \<^verbatim>\<open>name_\<close>, \<^verbatim>\<open>heap_\<close> and
  \<^verbatim>\<open>space_\<close>. The heap is passed to every operation and returned by those that write
  it; the space is the source region, which no operation of this file changes. \<^verbatim>\<open>ModUnionTableReferenceCache\<close> adds
  \<^verbatim>\<open>cleared_cards_\<close> and \<^verbatim>\<open>references_\<close>, \<^verbatim>\<open>ModUnionTableCardCache\<close> adds its own
  \<^verbatim>\<open>cleared_cards_\<close> (the field \<open>cache_cleared_cards\<close>): both are handed to
  \<^verbatim>\<open>ModUnionClearCardSetVisitor\<close>, so both are a \<^verbatim>\<open>CardSet\<close>.
\<close>

record ModUnionTable =
  table_name :: string
  table_space :: ContinuousSpace

record ModUnionTableReferenceCache = ModUnionTable +
  cleared_cards :: CardSet
  references :: "addr list SafeMap"

record ModUnionTableCardCache = ModUnionTable +
  cache_cleared_cards :: CardSet

text \<open>
  \<^verbatim>\<open>RootVisitor\<close>: \<^verbatim>\<open>Object* (*)(Object* root, void* arg)\<close>. What the callback keeps
  behind \<^verbatim>\<open>arg\<close> is its own state, threaded through the calls.
\<close>

type_synonym 'arg RootVisitor = "addr \<Rightarrow> 'arg \<Rightarrow> addr \<times> 'arg"

subsection \<open>Visitors\<close>

definition ModUnionClearCardSetVisitor ::
  "CardTable \<Rightarrow> addr \<Rightarrow> byte \<Rightarrow> byte \<Rightarrow> CardSet \<Rightarrow> CardSet" where
  "ModUnionClearCardSetVisitor ct card_addr expected_value new_value cleared =
     (if expected_value = kCardDirty ct
      then CardSet_insert card_addr cleared
      else cleared)"

definition ModUnionClearCardVisitor ::
  "CardTable \<Rightarrow> addr \<Rightarrow> byte \<Rightarrow> byte \<Rightarrow> addr list \<Rightarrow> addr list" where
  "ModUnionClearCardVisitor ct card_addr expected_card new_card cleared =
     (if expected_card = kCardDirty ct
      then cleared @ [card_addr]
      else cleared)"

definition ModUnionUpdateObjectReferencesVisitor ::
  "'arg RootVisitor \<Rightarrow> addr \<Rightarrow> addr \<Rightarrow> nat \<Rightarrow> Heap \<times> 'arg \<Rightarrow> Heap \<times> 'arg" where
  "ModUnionUpdateObjectReferencesVisitor visitor obj ref offset hs =
     (if ref \<noteq> nullptr
      then (case visitor ref (snd hs) of
              (new_ref, arg') \<Rightarrow>
                (if new_ref \<noteq> ref then SetFieldPtr obj offset new_ref (fst hs) else fst hs,
                 arg'))
      else hs)"

definition ModUnionScanImageRootVisitor ::
  "'arg RootVisitor \<Rightarrow> addr \<Rightarrow> Heap \<times> 'arg \<Rightarrow> Heap \<times> 'arg" where
  "ModUnionScanImageRootVisitor visitor root hs =
     VisitObjectReferences root (ModUnionUpdateObjectReferencesVisitor visitor) hs"

text \<open>
  \<^verbatim>\<open>AddReference\<close> is the virtual predicate of the reference-cache table; the subclass
  that implements it is declared in mod_union_table.h, so it is a parameter.
\<close>

definition AddToReferenceArrayVisitor ::
  "(addr \<Rightarrow> addr \<Rightarrow> bool) \<Rightarrow> addr \<Rightarrow> addr \<Rightarrow> nat \<Rightarrow> Heap \<times> addr list \<Rightarrow> Heap \<times> addr list" where
  "AddToReferenceArrayVisitor AddReference obj ref offset hs =
     (if ref \<noteq> nullptr \<and> AddReference obj ref
      then (fst hs, snd hs @ [GetFieldObjectAddr obj offset])
      else hs)"

definition ModUnionReferenceVisitor ::
  "(addr \<Rightarrow> addr \<Rightarrow> bool) \<Rightarrow> addr \<Rightarrow> Heap \<times> addr list \<Rightarrow> Heap \<times> addr list" where
  "ModUnionReferenceVisitor AddReference obj hs =
     VisitObjectReferences obj (AddToReferenceArrayVisitor AddReference) hs"

subsection \<open>ClearCards\<close>

definition ModUnionTableReferenceCache_ClearCards ::
  "Heap \<Rightarrow> ModUnionTableReferenceCache \<Rightarrow> Heap \<times> ModUnionTableReferenceCache" where
  "ModUnionTableReferenceCache_ClearCards heap table =
     (let ct = GetCardTable heap
      in case ModifyCardsAtomic ct (Begin (table_space table)) (End (table_space table))
                (AgeCardVisitor ct) (ModUnionClearCardSetVisitor ct) (cleared_cards table) of
           (ct', cleared) \<Rightarrow>
             (heap\<lparr>card_table := ct'\<rparr>, table\<lparr>cleared_cards := cleared\<rparr>))"

definition ModUnionTableCardCache_ClearCards ::
  "Heap \<Rightarrow> ModUnionTableCardCache \<Rightarrow> Heap \<times> ModUnionTableCardCache" where
  "ModUnionTableCardCache_ClearCards heap table =
     (let ct = GetCardTable heap
      in case ModifyCardsAtomic ct (Begin (table_space table)) (End (table_space table))
                (AgeCardVisitor ct) (ModUnionClearCardSetVisitor ct)
                (cache_cleared_cards table) of
           (ct', cleared) \<Rightarrow>
             (heap\<lparr>card_table := ct'\<rparr>, table\<lparr>cache_cleared_cards := cleared\<rparr>))"

subsection \<open>UpdateAndMarkReferences, reference cache\<close>

text \<open>
  The first loop of \<^verbatim>\<open>ModUnionTableReferenceCache::UpdateAndMarkReferences\<close>: for each
  cleared card, \<^verbatim>\<open>cards_references\<close> is cleared and refilled from the live objects
  under the card, then stored for the card.
\<close>

definition CardsReferences :: "(addr \<Rightarrow> addr \<Rightarrow> bool) \<Rightarrow> SpaceBitmap \<Rightarrow> addr \<Rightarrow> Heap \<Rightarrow> Heap \<times> addr list" where
  "CardsReferences AddReference bitmap card_addr heap =
     (let start = AddrFromCard (GetCardTable heap) card_addr;
          end_addr = start + kCardSize (GetCardTable heap)
      in VisitMarkedRange bitmap start end_addr (ModUnionReferenceVisitor AddReference)
           (heap, []))"

fun RecomputeCards ::
  "(addr \<Rightarrow> addr \<Rightarrow> bool) \<Rightarrow> addr list \<Rightarrow> Heap \<times> addr list SafeMap \<Rightarrow>
   error + Heap \<times> addr list SafeMap" where
  "RecomputeCards AddReference [] (heap, refs) = Inr (heap, refs)"
| "RecomputeCards AddReference (card_addr # cards) (heap, refs) =
     (let start = AddrFromCard (GetCardTable heap) card_addr
      in case FindContinuousSpaceFromObject heap start of
           None \<Rightarrow> Inl (NullSpace start)
         | Some found_space \<Rightarrow>
             (case CardsReferences AddReference (GetLiveBitmap found_space) card_addr heap of
                (heap', cards_references) \<Rightarrow>
                  (case SafeMap_find card_addr refs of
                     None \<Rightarrow>
                       if cards_references = []
                       then RecomputeCards AddReference cards (heap', refs)
                       else RecomputeCards AddReference cards
                              (heap', SafeMap_Put card_addr cards_references refs)
                   | Some _ \<Rightarrow>
                       RecomputeCards AddReference cards
                         (heap', SafeMap_assign card_addr cards_references refs))))"

text \<open>The second loop: every recorded slot is read, and the visitor is given what it holds.\<close>

fun VisitSlots :: "'arg RootVisitor \<Rightarrow> addr list \<Rightarrow> Heap \<times> 'arg \<Rightarrow> Heap \<times> 'arg" where
  "VisitSlots visitor [] (heap, arg) = (heap, arg)"
| "VisitSlots visitor (obj_ptr # ptrs) (heap, arg) =
     (let obj = memory heap obj_ptr
      in if obj \<noteq> nullptr
         then (case visitor obj arg of
                 (new_obj, arg') \<Rightarrow>
                   VisitSlots visitor ptrs
                     (if new_obj \<noteq> obj
                      then heap\<lparr>memory := (memory heap)(obj_ptr := new_obj)\<rparr>
                      else heap,
                      arg'))
         else VisitSlots visitor ptrs (heap, arg))"

fun MarkReferences ::
  "'arg RootVisitor \<Rightarrow> addr list SafeMap \<Rightarrow> (Heap \<times> 'arg) \<times> nat \<Rightarrow> (Heap \<times> 'arg) \<times> nat" where
  "MarkReferences visitor [] (hs, count) = (hs, count)"
| "MarkReferences visitor (ref_pair # refs) (hs, count) =
     MarkReferences visitor refs
       (VisitSlots visitor (snd ref_pair) hs, count + length (snd ref_pair))"

text \<open>
  The result is the heap, the table, the visitor's state and \<^verbatim>\<open>count\<close>, the number the
  \<^verbatim>\<open>VLOG\<close> line prints.
\<close>

definition ModUnionTableReferenceCache_UpdateAndMarkReferences ::
  "(addr \<Rightarrow> addr \<Rightarrow> bool) \<Rightarrow> 'arg RootVisitor \<Rightarrow> 'arg \<Rightarrow> Heap \<Rightarrow> ModUnionTableReferenceCache \<Rightarrow>
   error + (Heap \<times> ModUnionTableReferenceCache \<times> 'arg \<times> nat)" where
  "ModUnionTableReferenceCache_UpdateAndMarkReferences AddReference visitor arg heap table =
     (case RecomputeCards AddReference (cleared_cards table) (heap, references table) of
        Inl e \<Rightarrow> Inl e
      | Inr (heap', refs) \<Rightarrow>
          (case MarkReferences visitor refs ((heap', arg), 0) of
             ((heap'', arg'), count) \<Rightarrow>
               Inr (heap'', table\<lparr>cleared_cards := [], references := refs\<rparr>, arg', count)))"

subsection \<open>UpdateAndMarkReferences, card cache\<close>

definition ModUnionTableCardCache_UpdateAndMarkReferences ::
  "'arg RootVisitor \<Rightarrow> 'arg \<Rightarrow> Heap \<Rightarrow> ModUnionTableCardCache \<Rightarrow> Heap \<times> 'arg" where
  "ModUnionTableCardCache_UpdateAndMarkReferences visitor arg heap table =
     fold (\<lambda>card_addr hs.
             let start = AddrFromCard (GetCardTable (fst hs)) card_addr
             in VisitMarkedRange (GetLiveBitmap (table_space table)) start
                  (start + kCardSize (GetCardTable (fst hs)))
                  (ModUnionScanImageRootVisitor visitor) hs)
          (cache_cleared_cards table) (heap, arg)"

subsection \<open>Verify\<close>

text \<open>
  A visitor that has aborted the process visits nothing more: once the second component
  is an error, every later visit leaves it as it is. \<^verbatim>\<open>references_\<close> of the visitor
  is the \<^verbatim>\<open>std::set<const Object*>\<close> built by \<^verbatim>\<open>Verify\<close>, here the list of its
  elements; only membership is asked of it.
\<close>

definition GetName :: "ContinuousSpace \<Rightarrow> string" where
  "GetName found_space = space_name found_space"

definition GetGcRetentionPolicy :: "ContinuousSpace \<Rightarrow> GcRetentionPolicy" where
  "GetGcRetentionPolicy found_space = gc_retention_policy found_space"

definition CheckReferenceVisitor ::
  "(addr \<Rightarrow> addr \<Rightarrow> bool) \<Rightarrow> addr list \<Rightarrow> addr \<Rightarrow> addr \<Rightarrow> nat \<Rightarrow>
   Heap \<times> (error + unit) \<Rightarrow> Heap \<times> (error + unit)" where
  "CheckReferenceVisitor AddReference reference_set obj ref offset hs =
     (case snd hs of
        Inl e \<Rightarrow> hs
      | Inr u \<Rightarrow>
          if ref \<noteq> nullptr \<and> AddReference obj ref \<and> ref \<notin> set reference_set
          then (case FindContinuousSpaceFromObject (fst hs) obj of
                  None \<Rightarrow> (fst hs, Inl (NullSpace obj))
                | Some from_space \<Rightarrow>
                    (case FindContinuousSpaceFromObject (fst hs) ref of
                       None \<Rightarrow> (fst hs, Inl (NullSpace ref))
                     | Some to_space \<Rightarrow>
                         (fst hs,
                          Inl (LOG_FATAL
                            [INFO_ObjectReferences obj ref,
                             INFO_FromSpace (GetName from_space) (GetGcRetentionPolicy from_space),
                             INFO_ToSpace (GetName to_space) (GetGcRetentionPolicy to_space),
                             DumpSpaces,
                             FATAL ''FATAL ERROR'']))))
          else hs)"

definition ModUnionCheckReferences ::
  "(addr \<Rightarrow> addr \<Rightarrow> bool) \<Rightarrow> addr list \<Rightarrow> addr \<Rightarrow> Heap \<times> (error + unit) \<Rightarrow>
   Heap \<times> (error + unit)" where
  "ModUnionCheckReferences AddReference reference_set obj hs =
     VisitObjectReferences obj (CheckReferenceVisitor AddReference reference_set) hs"

text \<open>The first loop of \<^verbatim>\<open>Verify\<close>: \<^verbatim>\<open>CHECK(heap_->IsLiveObjectLocked(*ref))\<close> on every slot.\<close>

definition VerifyMarked :: "Heap \<Rightarrow> addr list SafeMap \<Rightarrow> bool" where
  "VerifyMarked heap refs =
     list_all (\<lambda>ref_pair.
        list_all (\<lambda>ref. IsLiveObjectLocked heap (memory heap ref)) (snd ref_pair)) refs"

text \<open>The body of the second loop, for one entry of \<^verbatim>\<open>references_\<close>.\<close>

definition VerifyCard ::
  "(addr \<Rightarrow> addr \<Rightarrow> bool) \<Rightarrow> ModUnionTableReferenceCache \<Rightarrow> addr \<times> addr list \<Rightarrow>
   Heap \<times> (error + unit) \<Rightarrow> Heap \<times> (error + unit)" where
  "VerifyCard AddReference table ref_pair hs =
     (let ct = GetCardTable (fst hs);
          card_addr = fst ref_pair
      in if card_bytes ct card_addr = kCardClean ct
         then (let reference_set = map (memory (fst hs)) (snd ref_pair);
                   start = AddrFromCard ct card_addr
               in VisitMarkedRange (GetLiveBitmap (table_space table)) start
                    (start + kCardSize ct)
                    (ModUnionCheckReferences AddReference reference_set) hs)
         else hs)"

definition ModUnionTableReferenceCache_Verify ::
  "(addr \<Rightarrow> addr \<Rightarrow> bool) \<Rightarrow> Heap \<Rightarrow> ModUnionTableReferenceCache \<Rightarrow> error + unit" where
  "ModUnionTableReferenceCache_Verify AddReference heap table =
     (if \<not> VerifyMarked heap (references table)
      then Inl (CHECK_failed ''heap_->IsLiveObjectLocked(*ref)'')
      else snd (fold (VerifyCard AddReference table) (references table) (heap, Inr ())))"

section \<open>The RosAlloc space (runtime/gc/space/rosalloc_space.cc)\<close>

text \<open>
  \<^verbatim>\<open>size_t\<close> is a machine word; its width is the parameter \<open>'w\<close>.

  Modelled from the spec: gc/allocator/rosalloc.h and rosalloc.cc are not under src/.
  The spec's allocator state has a realized footprint and a footprint limit, a soft cap
  that can grow up to the capacity and shrink back down: \<^verbatim>\<open>SetFootprintLimit\<close> stores
  the limit, \<^verbatim>\<open>FootprintLimit\<close> and \<^verbatim>\<open>Footprint\<close> read the two values.
\<close>

datatype PageReleaseMode = kPageReleaseModeAll | kPageReleaseModeSizeAndEnd

record (overloaded) 'w RosAlloc =
  rosalloc_base :: addr
  rosalloc_footprint :: "'w word"
  rosalloc_footprint_limit :: "'w word"
  page_release_mode :: PageReleaseMode

definition RosAlloc_Footprint :: "'w::len RosAlloc \<Rightarrow> 'w word" where
  "RosAlloc_Footprint a = rosalloc_footprint a"

definition RosAlloc_FootprintLimit :: "'w::len RosAlloc \<Rightarrow> 'w word" where
  "RosAlloc_FootprintLimit a = rosalloc_footprint_limit a"

definition RosAlloc_SetFootprintLimit :: "'w::len word \<Rightarrow> 'w RosAlloc \<Rightarrow> 'w RosAlloc" where
  "RosAlloc_SetFootprintLimit new_capacity a = a\<lparr>rosalloc_footprint_limit := new_capacity\<rparr>"

text \<open>
  Modelled from the spec: the constructor of \<^verbatim>\<open>RosAlloc\<close> is not under src/. The
  comment in \<^verbatim>\<open>CreateRosAlloc\<close> gives the new allocator a footprint of
  \<^verbatim>\<open>morecore_start\<close>; its limit is set by the caller right after.
\<close>

definition new_RosAlloc :: "addr \<Rightarrow> 'w::len word \<Rightarrow> PageReleaseMode \<Rightarrow> 'w RosAlloc" where
  "new_RosAlloc base morecore_start mode =
     \<lparr>rosalloc_base = base, rosalloc_footprint = morecore_start,
      rosalloc_footprint_limit = morecore_start, page_release_mode = mode\<rparr>"

text \<open>\<^verbatim>\<open>MemMap\<close> (mem_map.h, not under src/): \<^verbatim>\<open>Create\<close> asks it for \<^verbatim>\<open>Begin()\<close> only.\<close>

record MemMap =
  mem_map_begin :: addr

text \<open>
  \<^verbatim>\<open>RosAllocSpace\<close> with the fields its constructor passes on to \<^verbatim>\<open>MallocSpace\<close>
  and its own \<^verbatim>\<open>rosalloc_\<close>. \<open>valgrind_initial_size\<close> is set for the
  \<^verbatim>\<open>ValgrindMallocSpace\<close> that \<^verbatim>\<open>Create\<close> builds under Valgrind.
\<close>

record (overloaded) 'w RosAllocSpace =
  ros_name :: string
  ros_mem_map :: MemMap
  ros_begin :: addr
  ros_end :: addr
  ros_limit :: addr
  ros_growth_limit :: "'w word"
  rosalloc :: "'w RosAlloc"
  valgrind_initial_size :: "'w word option"

text \<open>\<^verbatim>\<open>ContinuousSpace::Capacity\<close> of space.h: \<^verbatim>\<open>Limit() - Begin()\<close>, as a \<^verbatim>\<open>size_t\<close>.\<close>

definition Capacity :: "'w::len RosAllocSpace \<Rightarrow> 'w word" where
  "Capacity s = of_nat (ros_limit s) - of_nat (ros_begin s)"

definition RosAllocSpace_Contains :: "'w::len RosAllocSpace \<Rightarrow> addr \<Rightarrow> bool" where
  "RosAllocSpace_Contains s obj = (obj \<ge> ros_begin s \<and> obj < ros_limit s)"

text \<open>
  What \<^verbatim>\<open>Create\<close> gets from outside this file: \<^verbatim>\<open>VLOG_IS_ON(heap)\<close> and
  \<^verbatim>\<open>VLOG_IS_ON(startup)\<close>, the formatting of a size, \<^verbatim>\<open>MallocSpace::CreateMemMap\<close> (null, or the map with the
  adjusted \<^verbatim>\<open>initial_size\<close>, \<^verbatim>\<open>growth_limit\<close> and \<^verbatim>\<open>capacity\<close>), whether
  \<^verbatim>\<open>new RosAlloc\<close> yields an allocator, what the \<^verbatim>\<open>CHECK_MEMORY_CALL\<close> statement
  around \<^verbatim>\<open>mprotect\<close> does (\<open>None\<close>: it passes), and \<^verbatim>\<open>RUNNING_ON_VALGRIND\<close>.
\<close>

record (overloaded) 'w CreateEnv =
  VLOG_IS_ON_heap :: bool
  VLOG_IS_ON_startup :: bool
  PrettySize :: "'w word \<Rightarrow> string"
  CreateMemMap ::
    "string \<Rightarrow> 'w word \<Rightarrow> 'w word \<Rightarrow> 'w word \<Rightarrow> 'w word \<Rightarrow> addr \<Rightarrow>
     (MemMap \<times> 'w word \<times> 'w word \<times> 'w word) option"
  new_RosAlloc_succeeds :: bool
  CHECK_MEMORY_CALL_mprotect :: "addr \<Rightarrow> 'w word \<Rightarrow> error option"
  RUNNING_ON_VALGRIND :: nat

definition kPageSize :: "'w::len word" where
  "kPageSize = 4096"

text \<open>The result of \<^verbatim>\<open>CreateRosAlloc\<close>: the lines logged, and the allocator or null.\<close>

definition CreateRosAlloc ::
  "'w::len CreateEnv \<Rightarrow> addr \<Rightarrow> 'w word \<Rightarrow> 'w word \<Rightarrow> bool \<Rightarrow> LogLine list \<times> 'w RosAlloc option" where
  "CreateRosAlloc env base morecore_start initial_size low_memory_mode =
     (if new_RosAlloc_succeeds env
      then ([], Some (RosAlloc_SetFootprintLimit initial_size
                        (new_RosAlloc base morecore_start
                           (if low_memory_mode then kPageReleaseModeAll
                            else kPageReleaseModeSizeAndEnd))))
      else ([PLOG_ERROR ''RosAlloc::Create failed''], None))"

text \<open>
  \<^verbatim>\<open>RosAllocSpace::Create\<close>: the lines logged, and either the abort of the process
  (\<open>Inl\<close>) or the value returned, \<open>None\<close> being the null space. A logged line
  carries the constant text of its message, the name of the space and, where the source
  prints one, the formatted size.
\<close>

definition Create ::
  "'w::len CreateEnv \<Rightarrow> string \<Rightarrow> 'w word \<Rightarrow> 'w word \<Rightarrow> 'w word \<Rightarrow> addr \<Rightarrow> bool \<Rightarrow>
   LogLine list \<times> (error + 'w RosAllocSpace option)" where
  "Create env name initial_size growth_limit capacity requested_begin low_memory_mode =
     (let log0 = (if (VLOG_IS_ON_heap env \<or> VLOG_IS_ON_startup env) \<and> VLOG_IS_ON_startup env
                  then [VLOG (''RosAllocSpace::Create entering '' @ name)]
                  else []);
          starting_size = kPageSize
      in case CreateMemMap env name starting_size initial_size growth_limit capacity
                requested_begin of
           None \<Rightarrow>
             (log0 @ [ERROR (''Failed to create mem map for alloc space ('' @ name @
                             '') of size '' @ PrettySize env capacity)],
              Inr None)
         | Some (mem_map, initial_size', growth_limit', capacity') \<Rightarrow>
             (case CreateRosAlloc env (mem_map_begin mem_map) starting_size initial_size'
                     low_memory_mode of
                (log1, None) \<Rightarrow>
                  (log0 @ log1 @
                   [ERROR (''Failed to initialize rosalloc for alloc space ('' @ name @ '')'')],
                   Inr None)
              | (log1, Some allocator) \<Rightarrow>
                  (let end_addr = mem_map_begin mem_map + unat starting_size;
                       protect =
                         (if capacity' - initial_size' > 0
                          then CHECK_MEMORY_CALL_mprotect env end_addr (capacity' - initial_size')
                          else None)
                   in case protect of
                        Some e \<Rightarrow> (log0 @ log1, Inl e)
                      | None \<Rightarrow>
                          (let begin_addr = mem_map_begin mem_map;
                               new_space =
                                 \<lparr>ros_name = name, ros_mem_map = mem_map,
                                  ros_begin = begin_addr, ros_end = end_addr,
                                  ros_limit = begin_addr + unat capacity',
                                  ros_growth_limit = growth_limit', rosalloc = allocator,
                                  valgrind_initial_size =
                                    (if RUNNING_ON_VALGRIND env > 0 then Some initial_size'
                                     else None)\<rparr>
                           in (log0 @ log1 @
                               (if VLOG_IS_ON_heap env \<or> VLOG_IS_ON_startup env
                                then [INFO (''RosAllocSpace::Create exiting '' @ name)]
                                else []),
                               Inr (Some new_space))))))"

text \<open>
  \<^verbatim>\<open>AllocWithoutGrowthLocked\<close> (rosalloc_space-inl.h) hands the request to the
  allocator, whose \<^verbatim>\<open>Alloc\<close> is not under src/: the parameter \<open>alloc\<close> gives the
  object (or null), \<^verbatim>\<open>*bytes_allocated\<close> and the allocator after the attempt.
  \<^verbatim>\<open>kDebugSpaces\<close> is \<^verbatim>\<open>kIsDebugBuild\<close>, fixed by the build.
\<close>

type_synonym 'w Alloc = "'w word \<Rightarrow> 'w RosAlloc \<Rightarrow> (addr \<times> 'w word) \<times> 'w RosAlloc"

definition AllocWithGrowth ::
  "bool \<Rightarrow> 'w::len Alloc \<Rightarrow> 'w word \<Rightarrow> 'w RosAllocSpace \<Rightarrow>
   error + ((addr \<times> 'w word) \<times> 'w RosAllocSpace)" where
  "AllocWithGrowth kDebugSpaces alloc num_bytes s =
     (let max_allowed = Capacity s;
          raised = RosAlloc_SetFootprintLimit max_allowed (rosalloc s)
      in case alloc num_bytes raised of
           (result, allocated) \<Rightarrow>
             (let footprint = RosAlloc_Footprint allocated;
                  shrunk = RosAlloc_SetFootprintLimit footprint allocated;
                  s' = s\<lparr>rosalloc := shrunk\<rparr>
              in if \<not> kDebugSpaces \<or> fst result = nullptr \<or> RosAllocSpace_Contains s' (fst result)
                 then Inr (result, s')
                 else Inl (CHECK_failed
                        ''!kDebugSpaces || result == NULL || Contains(result)'')))"

definition GetFootprint :: "'w::len RosAllocSpace \<Rightarrow> 'w word" where
  "GetFootprint s = RosAlloc_Footprint (rosalloc s)"

definition GetFootprintLimit :: "'w::len RosAllocSpace \<Rightarrow> 'w word" where
  "GetFootprintLimit s = RosAlloc_FootprintLimit (rosalloc s)"

definition SetFootprintLimit :: "'w::len word \<Rightarrow> 'w RosAllocSpace \<Rightarrow> 'w RosAllocSpace" where
  "SetFootprintLimit new_size s =
     (let current_space_size = RosAlloc_Footprint (rosalloc s);
          new_size' = (if new_size < current_space_size then current_space_size else new_size)
      in s\<lparr>rosalloc := RosAlloc_SetFootprintLimit new_size' (rosalloc s)\<rparr>)"

section \<open>Notions of the specification\<close>

subsection \<open>Cards observed by the atomic transform\<close>

text \<open>
  \<open>ObservedCards\<close> runs the transform of \<^verbatim>\<open>ClearCards\<close> with a visitor that only
  writes down what it is told: the card, the byte that was read and the byte that was
  written. \<open>DiscoveredDirty\<close> keeps the cards read as Dirty, in the order of discovery.
\<close>

definition ReportCard :: "addr \<Rightarrow> byte \<Rightarrow> byte \<Rightarrow> (addr \<times> byte \<times> byte) list \<Rightarrow> (addr \<times> byte \<times> byte) list" where
  "ReportCard card_addr expected_value new_value seen = seen @ [(card_addr, expected_value, new_value)]"

definition ObservedCards :: "CardTable \<Rightarrow> ContinuousSpace \<Rightarrow> (addr \<times> byte \<times> byte) list" where
  "ObservedCards ct source_space =
     snd (ModifyCardsAtomic ct (Begin source_space) (End source_space) (AgeCardVisitor ct)
            ReportCard [])"

definition DiscoveredDirty :: "CardTable \<Rightarrow> ContinuousSpace \<Rightarrow> addr list" where
  "DiscoveredDirty ct source_space =
     map fst (filter (\<lambda>seen. fst (snd seen) = kCardDirty ct) (ObservedCards ct source_space))"

subsection \<open>Qualifying slots of a card\<close>

text \<open>
  A reference field qualifies when it holds a non-null reference that \<^verbatim>\<open>AddReference\<close>
  accepts. The qualifying slots of a card are the addresses of the qualifying fields of
  the marked objects under the card, object by object and field by field.
  \<open>RecordedSlots\<close> reads the sequence the map has for a card; a card without an entry
  has no recorded slot.
\<close>

definition FieldQualifies :: "(addr \<Rightarrow> addr \<Rightarrow> bool) \<Rightarrow> Heap \<Rightarrow> addr \<Rightarrow> nat \<Rightarrow> bool" where
  "FieldQualifies AddReference heap obj offset =
     (memory heap (GetFieldObjectAddr obj offset) \<noteq> nullptr \<and>
      AddReference obj (memory heap (GetFieldObjectAddr obj offset)))"

definition QualifyingSlotsOf :: "(addr \<Rightarrow> addr \<Rightarrow> bool) \<Rightarrow> Heap \<Rightarrow> addr \<Rightarrow> addr list" where
  "QualifyingSlotsOf AddReference heap obj =
     map (GetFieldObjectAddr obj)
       (filter (FieldQualifies AddReference heap obj) (reference_offsets heap obj))"

definition QualifyingSlots ::
  "(addr \<Rightarrow> addr \<Rightarrow> bool) \<Rightarrow> Heap \<Rightarrow> SpaceBitmap \<Rightarrow> addr \<Rightarrow> addr list" where
  "QualifyingSlots AddReference heap bitmap card_addr =
     concat (map (QualifyingSlotsOf AddReference heap)
       (MarkedRange bitmap (AddrFromCard (GetCardTable heap) card_addr)
          (AddrFromCard (GetCardTable heap) card_addr + kCardSize (GetCardTable heap))))"

definition RecordedSlots :: "addr list SafeMap \<Rightarrow> addr \<Rightarrow> addr list" where
  "RecordedSlots refs card_addr =
     (case SafeMap_find card_addr refs of None \<Rightarrow> [] | Some slots \<Rightarrow> slots)"

text \<open>What one round of the first loop stores for a card, and the entry a cleared card ends with.\<close>

definition StoreCard :: "addr \<Rightarrow> addr list \<Rightarrow> addr list SafeMap \<Rightarrow> addr list SafeMap" where
  "StoreCard card_addr cards_references refs =
     (case SafeMap_find card_addr refs of
        None \<Rightarrow> if cards_references = [] then refs
                else SafeMap_Put card_addr cards_references refs
      | Some old \<Rightarrow> SafeMap_assign card_addr cards_references refs)"

definition FreshEntry ::
  "(addr \<Rightarrow> addr \<Rightarrow> bool) \<Rightarrow> Heap \<Rightarrow> addr list SafeMap \<Rightarrow> addr \<Rightarrow> addr list option" where
  "FreshEntry AddReference heap refs card_addr =
     (case FindContinuousSpaceFromObject heap (AddrFromCard (GetCardTable heap) card_addr) of
        None \<Rightarrow> None
      | Some found_space \<Rightarrow>
          (if SafeMap_find card_addr refs = None \<and>
              QualifyingSlots AddReference heap (GetLiveBitmap found_space) card_addr = []
           then None
           else Some (QualifyingSlots AddReference heap (GetLiveBitmap found_space) card_addr)))"

subsection \<open>Calls of the visitor\<close>

text \<open>
  \<open>Recording visitor\<close> behaves as \<open>visitor\<close> and keeps, in front of the visitor's own
  state, the list of the references it was called on.
\<close>

definition Recording :: "'arg RootVisitor \<Rightarrow> (addr list \<times> 'arg) RootVisitor" where
  "Recording visitor obj called =
     (case visitor obj (snd called) of
        (new_obj, arg') \<Rightarrow> (new_obj, (fst called @ [obj], arg')))"

subsection \<open>References that escaped the table\<close>

text \<open>
  A reference escapes when it is non-null, accepted by \<^verbatim>\<open>AddReference\<close> and not among
  the objects the recorded slots of the card point to. \<open>EscapedReferences\<close> lists, for
  the entries of the map whose card is Clean, the escaping references of the marked
  objects under the card, in the order \<^verbatim>\<open>Verify\<close> meets them. \<open>CheckAbort\<close> is how
  \<^verbatim>\<open>CheckReferenceVisitor\<close> stops the process for one of them.
\<close>

definition CheckAbort :: "Heap \<Rightarrow> addr \<Rightarrow> addr \<Rightarrow> error" where
  "CheckAbort heap obj ref =
     (case FindContinuousSpaceFromObject heap obj of
        None \<Rightarrow> NullSpace obj
      | Some from_space \<Rightarrow>
          (case FindContinuousSpaceFromObject heap ref of
             None \<Rightarrow> NullSpace ref
           | Some to_space \<Rightarrow>
               LOG_FATAL
                 [INFO_ObjectReferences obj ref,
                  INFO_FromSpace (GetName from_space) (GetGcRetentionPolicy from_space),
                  INFO_ToSpace (GetName to_space) (GetGcRetentionPolicy to_space),
                  DumpSpaces,
                  FATAL ''FATAL ERROR'']))"

definition Escapes :: "(addr \<Rightarrow> addr \<Rightarrow> bool) \<Rightarrow> addr list \<Rightarrow> addr \<Rightarrow> addr \<Rightarrow> bool" where
  "Escapes AddReference reference_set obj ref =
     (ref \<noteq> nullptr \<and> AddReference obj ref \<and> ref \<notin> set reference_set)"

definition EscapedOf ::
  "(addr \<Rightarrow> addr \<Rightarrow> bool) \<Rightarrow> Heap \<Rightarrow> addr list \<Rightarrow> addr \<Rightarrow> (addr \<times> addr) list" where
  "EscapedOf AddReference heap reference_set obj =
     filter (\<lambda>p. Escapes AddReference reference_set (fst p) (snd p))
       (map (\<lambda>offset. (obj, memory heap (GetFieldObjectAddr obj offset)))
          (reference_offsets heap obj))"

definition EscapedUnderCard ::
  "(addr \<Rightarrow> addr \<Rightarrow> bool) \<Rightarrow> Heap \<Rightarrow> ModUnionTableReferenceCache \<Rightarrow> addr \<times> addr list \<Rightarrow>
   (addr \<times> addr) list" where
  "EscapedUnderCard AddReference heap table ref_pair =
     (if card_bytes (GetCardTable heap) (fst ref_pair) = kCardClean (GetCardTable heap)
      then concat (map (EscapedOf AddReference heap (map (memory heap) (snd ref_pair)))
             (MarkedRange (GetLiveBitmap (table_space table))
                (AddrFromCard (GetCardTable heap) (fst ref_pair))
                (AddrFromCard (GetCardTable heap) (fst ref_pair) + kCardSize (GetCardTable heap))))
      else [])"

definition EscapedReferences ::
  "(addr \<Rightarrow> addr \<Rightarrow> bool) \<Rightarrow> Heap \<Rightarrow> ModUnionTableReferenceCache \<Rightarrow> (addr \<times> addr) list" where
  "EscapedReferences AddReference heap table =
     concat (map (EscapedUnderCard AddReference heap table) (references table))"

definition FirstAbort :: "Heap \<Rightarrow> (addr \<times> addr) list \<Rightarrow> error + unit" where
  "FirstAbort heap escaped =
     (case escaped of [] \<Rightarrow> Inr () | p # ps \<Rightarrow> Inl (CheckAbort heap (fst p) (snd p)))"

section \<open>A small heap\<close>

text \<open>
  Cards of four bytes. The source space begins at 4, ends at 12 and is limited by 16; it
  holds two objects, at 4 with the reference fields 5, 6 and 7 and at 8 with the field 9.
  Field 5 points to 20 and field 9 to 24, both marked objects of the space that begins at
  16; field 6 points back into the source space and field 7 is null. Card 2 is Dirty.
  The reference-cache table has the cards 1 and 2 cleared, an older entry for card 1
  and an entry for card 3 whose slot 13 holds null.
\<close>

definition example_card_table :: CardTable where
  "example_card_table =
     \<lparr>kCardClean = 0, kCardDirty = 0x70, kCardAged = 0x6F, kCardShift = 2,
      card_bytes = (\<lambda>_. 0)(2 := 0x70)\<rparr>"

definition example_space :: ContinuousSpace where
  "example_space =
     \<lparr>space_name = ''zygote space'', gc_retention_policy = kGcRetentionPolicyFullCollect,
      space_begin = 4, space_end = 12, space_limit = 16,
      live_bitmap = (\<lambda>a. a = 4 \<or> a = 8)\<rparr>"

definition example_alloc_space :: ContinuousSpace where
  "example_alloc_space =
     \<lparr>space_name = ''alloc space'', gc_retention_policy = kGcRetentionPolicyAlwaysCollect,
      space_begin = 16, space_end = 28, space_limit = 32,
      live_bitmap = (\<lambda>a. a = 20 \<or> a = 24)\<rparr>"

definition example_heap :: Heap where
  "example_heap =
     \<lparr>card_table = example_card_table,
      continuous_spaces = [example_space, example_alloc_space],
      memory = (\<lambda>_. 0)(5 := 20, 6 := 4, 9 := 24),
      reference_offsets = (\<lambda>_. [])(4 := [1, 2, 3], 8 := [1])\<rparr>"

definition example_AddReference :: "addr \<Rightarrow> addr \<Rightarrow> bool" where
  "example_AddReference obj ref = (\<not> Contains example_space ref)"

definition example_table :: ModUnionTableReferenceCache where
  "example_table =
     \<lparr>table_name = ''zygote mod-union table'', table_space = example_space,
      cleared_cards = [1, 2], references = [(1, [6, 7]), (3, [13])]\<rparr>"

definition example_cache_table :: ModUnionTableCardCache where
  "example_cache_table =
     \<lparr>table_name = ''image mod-union table'', table_space = example_space,
      cache_cleared_cards = []\<rparr>"

definition example_visitor :: "unit RootVisitor" where
  "example_visitor obj u = (obj + 4, u)"

text \<open>
  The card-cache table after a first \<^verbatim>\<open>ClearCards\<close>, and the heap after that call and
  a write barrier on address 5, which dirties card 1.
\<close>

definition example_cache_table_cleared :: ModUnionTableCardCache where
  "example_cache_table_cleared =
     snd (ModUnionTableCardCache_ClearCards example_heap example_cache_table)"

definition example_heap_redirtied :: Heap where
  "example_heap_redirtied =
     (let heap = fst (ModUnionTableCardCache_ClearCards example_heap example_cache_table)
      in heap\<lparr>card_table := MarkCard 5 (card_table heap)\<rparr>)"

text \<open>
  A table whose two recorded slots point to marked objects, and the heap after a store
  of the reference 24 into field 7 that dirtied no card.
\<close>

definition example_verify_table :: ModUnionTableReferenceCache where
  "example_verify_table =
     \<lparr>table_name = ''zygote mod-union table'', table_space = example_space,
      cleared_cards = [], references = [(1, [5]), (2, [9])]\<rparr>"

definition example_heap_unrecorded :: Heap where
  "example_heap_unrecorded = example_heap\<lparr>memory := (memory example_heap)(7 := 24)\<rparr>"

text \<open>
  A space of 16 MiB with a footprint of one page and a footprint limit of 1 MiB, an
  allocator that hands out the next bytes of its region while the footprint stays
  within the limit, a system in which the memory map cannot be created, and one in
  which the map is created and the allocator is not.
\<close>

definition example_rosalloc_space :: "32 RosAllocSpace" where
  "example_rosalloc_space =
     \<lparr>ros_name = ''rosalloc space'', ros_mem_map = \<lparr>mem_map_begin = 0x1000\<rparr>,
      ros_begin = 0x1000, ros_end = 0x2000, ros_limit = 0x1001000,
      ros_growth_limit = 0x1000000,
      rosalloc = \<lparr>rosalloc_base = 0x1000, rosalloc_footprint = 0x1000,
                  rosalloc_footprint_limit = 0x100000,
                  page_release_mode = kPageReleaseModeSizeAndEnd\<rparr>,
      valgrind_initial_size = None\<rparr>"

definition example_alloc :: "32 Alloc" where
  "example_alloc num_bytes a =
     (if rosalloc_footprint a + num_bytes \<le> rosalloc_footprint_limit a
      then ((rosalloc_base a + unat (rosalloc_footprint a), num_bytes),
            a\<lparr>rosalloc_footprint := rosalloc_footprint a + num_bytes\<rparr>)
      else ((nullptr, 0), a))"

definition example_env :: "32 CreateEnv" where
  "example_env =
     \<lparr>VLOG_IS_ON_heap = False, VLOG_IS_ON_startup = False, PrettySize = (\<lambda>_. ''16MB''),
      CreateMemMap = (\<lambda>name starting_size initial_size growth_limit capacity requested_begin. None),
      new_RosAlloc_succeeds = True,
      CHECK_MEMORY_CALL_mprotect = (\<lambda>a n. None),
      RUNNING_ON_VALGRIND = 0\<rparr>"

definition example_env_no_allocator :: "32 CreateEnv" where
  "example_env_no_allocator =
     example_env
       \<lparr>CreateMemMap :=
          (\<lambda>name starting_size initial_size growth_limit capacity requested_begin.
             Some (\<lparr>mem_map_begin = 0x1000\<rparr>, initial_size, growth_limit, capacity)),
        new_RosAlloc_succeeds := False\<rparr>"

section \<open>ClearCards\<close>

lemma distinct_ScannedCards: "distinct (ScannedCards ct b e)"
  by (simp add: ScannedCards_def)

lemma set_CardSet_insert: "set (CardSet_insert c cs) = insert c (set cs)"
  by (simp add: CardSet_insert_def set_insort_insert)

lemma sorted_CardSet_insert: "sorted cs \<Longrightarrow> sorted (CardSet_insert c cs)"
  by (simp add: CardSet_insert_def sorted_insort_insert)

lemma distinct_CardSet_insert: "distinct cs \<Longrightarrow> distinct (CardSet_insert c cs)"
  by (simp add: CardSet_insert_def distinct_insort_insert)

text \<open>The transform factors through what it reports to its visitor.\<close>

lemma ModifyCards_Cons:
  "ModifyCards age modified (c # cards) (bytes, s) =
     ModifyCards age modified cards
       (bytes(c := age (bytes c)), modified c (bytes c) (age (bytes c)) s)"
  by (simp add: Let_def)

lemma snd_ModifyCardsAtomic:
  "snd (ModifyCardsAtomic ct scan_begin scan_end age modified s) =
     snd (ModifyCards age modified (ScannedCards ct scan_begin scan_end) (card_bytes ct, s))"
  by (simp add: ModifyCardsAtomic_def case_prod_unfold)

lemma ModifyCards_ReportCard_append:
  "snd (ModifyCards age ReportCard cards (bytes, seen)) =
     seen @ snd (ModifyCards age ReportCard cards (bytes, []))"
proof (induction cards arbitrary: bytes seen)
  case Nil
  then show ?case by simp
next
  case (Cons c cards)
  let ?bytes = "bytes(c := age (bytes c))"
  let ?report = "(c, bytes c, age (bytes c))"
  have "snd (ModifyCards age ReportCard (c # cards) (bytes, seen)) =
          snd (ModifyCards age ReportCard cards (?bytes, seen @ [?report]))"
    by (simp only: ModifyCards_Cons ReportCard_def)
  also have "\<dots> = (seen @ [?report]) @ snd (ModifyCards age ReportCard cards (?bytes, []))"
    by (rule Cons.IH)
  also have "\<dots> = seen @ ([] @ [?report]) @ snd (ModifyCards age ReportCard cards (?bytes, []))"
    by simp
  also have "([] @ [?report]) @ snd (ModifyCards age ReportCard cards (?bytes, [])) =
               snd (ModifyCards age ReportCard cards (?bytes, [] @ [?report]))"
    by (rule Cons.IH [symmetric])
  also have "\<dots> = snd (ModifyCards age ReportCard (c # cards) (bytes, []))"
    by (simp only: ModifyCards_Cons ReportCard_def)
  finally show ?case .
qed

lemma ModifyCards_ReportCard_Cons:
  "snd (ModifyCards age ReportCard (c # cards) (bytes, [])) =
     (c, bytes c, age (bytes c)) #
     snd (ModifyCards age ReportCard cards (bytes(c := age (bytes c)), []))"
proof -
  have "snd (ModifyCards age ReportCard (c # cards) (bytes, [])) =
          snd (ModifyCards age ReportCard cards
                 (bytes(c := age (bytes c)), [] @ [(c, bytes c, age (bytes c))]))"
    by (simp only: ModifyCards_Cons ReportCard_def)
  also have "\<dots> = ([] @ [(c, bytes c, age (bytes c))]) @
                    snd (ModifyCards age ReportCard cards (bytes(c := age (bytes c)), []))"
    by (rule ModifyCards_ReportCard_append)
  finally show ?thesis
    by simp
qed

lemma ModifyCards_reports:
  "snd (ModifyCards age modified cards (bytes, s)) =
     fold (\<lambda>seen. modified (fst seen) (fst (snd seen)) (snd (snd seen)))
       (snd (ModifyCards age ReportCard cards (bytes, []))) s"
proof (induction cards arbitrary: bytes s)
  case Nil
  then show ?case by simp
next
  case (Cons c cards)
  let ?f = "\<lambda>seen. modified (fst seen) (fst (snd seen)) (snd (snd seen))"
  let ?bytes = "bytes(c := age (bytes c))"
  have "snd (ModifyCards age modified (c # cards) (bytes, s)) =
          snd (ModifyCards age modified cards (?bytes, modified c (bytes c) (age (bytes c)) s))"
    by (simp only: ModifyCards_Cons)
  also have "\<dots> = fold ?f (snd (ModifyCards age ReportCard cards (?bytes, [])))
                      (modified c (bytes c) (age (bytes c)) s)"
    by (rule Cons.IH)
  also have "\<dots> = fold ?f ((c, bytes c, age (bytes c)) #
                      snd (ModifyCards age ReportCard cards (?bytes, []))) s"
    by simp
  finally show ?case
    by (simp only: ModifyCards_ReportCard_Cons)
qed

lemma ModifyCards_ReportCard_distinct:
  "distinct cards \<Longrightarrow>
   snd (ModifyCards age ReportCard cards (bytes, [])) =
     map (\<lambda>c. (c, bytes c, age (bytes c))) cards"
proof (induction cards arbitrary: bytes)
  case Nil
  then show ?case by simp
next
  case (Cons c cards)
  then have c: "c \<notin> set cards" and d: "distinct cards"
    by simp_all
  have "snd (ModifyCards age ReportCard cards (bytes(c := age (bytes c)), [])) =
          map (\<lambda>x. (x, (bytes(c := age (bytes c))) x, age ((bytes(c := age (bytes c))) x))) cards"
    by (rule Cons.IH [OF d])
  also have "\<dots> = map (\<lambda>x. (x, bytes x, age (bytes x))) cards"
    using c by (intro map_cong) auto
  finally show ?case
    unfolding ModifyCards_ReportCard_Cons by simp
qed

text \<open>
  Every card of the range is read once, so what is observed for a card is the byte the
  table held when \<^verbatim>\<open>ClearCards\<close> was called.
\<close>

lemma ObservedCards_eq:
  "ObservedCards ct source_space =
     map (\<lambda>c. (c, card_bytes ct c, AgeCardVisitor ct (card_bytes ct c)))
       (ScannedCards ct (Begin source_space) (End source_space))"
  unfolding ObservedCards_def snd_ModifyCardsAtomic
  by (rule ModifyCards_ReportCard_distinct [OF distinct_ScannedCards])

lemma DiscoveredDirty_eq:
  "DiscoveredDirty ct source_space =
     filter (\<lambda>c. card_bytes ct c = kCardDirty ct)
       (ScannedCards ct (Begin source_space) (End source_space))"
  by (simp add: DiscoveredDirty_def ObservedCards_eq filter_map comp_def)

lemma set_fold_ModUnionClearCardSetVisitor:
  "set (fold (\<lambda>seen. ModUnionClearCardSetVisitor ct (fst seen) (fst (snd seen)) (snd (snd seen)))
          reports cleared) =
     set cleared \<union> fst ` {seen \<in> set reports. fst (snd seen) = kCardDirty ct}"
  by (induction reports arbitrary: cleared)
    (auto simp: ModUnionClearCardSetVisitor_def set_CardSet_insert)

lemma sorted_fold_ModUnionClearCardSetVisitor:
  "sorted cleared \<and> distinct cleared \<Longrightarrow>
   sorted (fold (\<lambda>seen. ModUnionClearCardSetVisitor ct (fst seen) (fst (snd seen)) (snd (snd seen)))
             reports cleared) \<and>
   distinct (fold (\<lambda>seen. ModUnionClearCardSetVisitor ct (fst seen) (fst (snd seen)) (snd (snd seen)))
             reports cleared)"
  by (induction reports arbitrary: cleared)
    (simp_all add: ModUnionClearCardSetVisitor_def sorted_CardSet_insert distinct_CardSet_insert)

lemma ReferenceCache_ClearCards_cleared:
  "cleared_cards (snd (ModUnionTableReferenceCache_ClearCards heap table)) =
     fold (\<lambda>seen. ModUnionClearCardSetVisitor (GetCardTable heap)
                    (fst seen) (fst (snd seen)) (snd (snd seen)))
       (ObservedCards (GetCardTable heap) (table_space table)) (cleared_cards table)"
proof -
  have "cleared_cards (snd (ModUnionTableReferenceCache_ClearCards heap table)) =
          snd (ModifyCardsAtomic (GetCardTable heap) (Begin (table_space table))
                 (End (table_space table)) (AgeCardVisitor (GetCardTable heap))
                 (ModUnionClearCardSetVisitor (GetCardTable heap)) (cleared_cards table))"
    by (simp add: ModUnionTableReferenceCache_ClearCards_def Let_def case_prod_unfold)
  then show ?thesis
    unfolding ObservedCards_def snd_ModifyCardsAtomic
    by (simp only: ModifyCards_reports [symmetric])
qed

lemma CardCache_ClearCards_cleared:
  "cache_cleared_cards (snd (ModUnionTableCardCache_ClearCards heap table)) =
     fold (\<lambda>seen. ModUnionClearCardSetVisitor (GetCardTable heap)
                    (fst seen) (fst (snd seen)) (snd (snd seen)))
       (ObservedCards (GetCardTable heap) (table_space table)) (cache_cleared_cards table)"
proof -
  have "cache_cleared_cards (snd (ModUnionTableCardCache_ClearCards heap table)) =
          snd (ModifyCardsAtomic (GetCardTable heap) (Begin (table_space table))
                 (End (table_space table)) (AgeCardVisitor (GetCardTable heap))
                 (ModUnionClearCardSetVisitor (GetCardTable heap)) (cache_cleared_cards table))"
    by (simp add: ModUnionTableCardCache_ClearCards_def Let_def case_prod_unfold)
  then show ?thesis
    unfolding ObservedCards_def snd_ModifyCardsAtomic
    by (simp only: ModifyCards_reports [symmetric])
qed

text \<open>
  C1. For both variants of the mod-union table, after \<^verbatim>\<open>ClearCards\<close> a card address
  lies in \<^verbatim>\<open>cleared_cards_\<close> if and only if it was there before the call or the atomic
  transform over \<open>[Begin, End)\<close> of the source space observed its byte as
  \<^verbatim>\<open>kCardDirty\<close>; a card observed in any other state is not added.
\<close>

theorem ClearCards_cleared_cards_iff:
  "(card_addr \<in> set (cleared_cards (snd (ModUnionTableReferenceCache_ClearCards heap table))) \<longleftrightarrow>
      card_addr \<in> set (cleared_cards table) \<or>
      (\<exists>new_value. (card_addr, kCardDirty (GetCardTable heap), new_value) \<in>
          set (ObservedCards (GetCardTable heap) (table_space table)))) \<and>
   (card_addr \<in> set (cache_cleared_cards (snd (ModUnionTableCardCache_ClearCards heap cache_table))) \<longleftrightarrow>
      card_addr \<in> set (cache_cleared_cards cache_table) \<or>
      (\<exists>new_value. (card_addr, kCardDirty (GetCardTable heap), new_value) \<in>
          set (ObservedCards (GetCardTable heap) (table_space cache_table))))"
  unfolding ReferenceCache_ClearCards_cleared CardCache_ClearCards_cleared
    set_fold_ModUnionClearCardSetVisitor
  by force

text \<open>
  C8, as the claim states it: iterating \<^verbatim>\<open>cleared_cards_\<close> of the card-cache variant
  would yield the cards in the order in which they were discovered as Dirty. On the small
  heap a first \<^verbatim>\<open>ClearCards\<close> discovers card 2, the mutator then dirties card 1 and a
  second \<^verbatim>\<open>ClearCards\<close> discovers it: the order of discovery is 2, 1, and iterating
  the \<^verbatim>\<open>CardSet\<close> yields 1, 2.
\<close>

theorem CardCache_cleared_cards_not_discovery_order:
  "DiscoveredDirty (GetCardTable example_heap) (table_space example_cache_table) = [2] \<and>
   DiscoveredDirty (GetCardTable example_heap_redirtied) (table_space example_cache_table_cleared) = [1] \<and>
   cache_cleared_cards example_cache_table = [] \<and>
   cache_cleared_cards example_cache_table_cleared = [2] \<and>
   cache_cleared_cards
     (snd (ModUnionTableCardCache_ClearCards example_heap_redirtied example_cache_table_cleared)) =
     [1, 2] \<and>
   cache_cleared_cards
     (snd (ModUnionTableCardCache_ClearCards example_heap_redirtied example_cache_table_cleared)) \<noteq>
     DiscoveredDirty (GetCardTable example_heap) (table_space example_cache_table) @
     DiscoveredDirty (GetCardTable example_heap_redirtied) (table_space example_cache_table_cleared)"
  by code_simp

text \<open>
  C8, amended. The card-cache variant keeps \<^verbatim>\<open>cleared_cards_\<close> as a set of card
  addresses: after \<^verbatim>\<open>ClearCards\<close>, iterating it yields, each once and in ascending
  address order, the cards that were in it before the call and the cards the call
  discovered as Dirty. The premise is the invariant of the set, which the empty set has
  and every call keeps.
\<close>

theorem CardCache_ClearCards_ascending:
  assumes "sorted (cache_cleared_cards table) \<and> distinct (cache_cleared_cards table)"
  shows "cache_cleared_cards (snd (ModUnionTableCardCache_ClearCards heap table)) =
           sorted_list_of_set (set (cache_cleared_cards table) \<union>
             set (DiscoveredDirty (GetCardTable heap) (table_space table))) \<and>
         sorted (cache_cleared_cards (snd (ModUnionTableCardCache_ClearCards heap table))) \<and>
         distinct (cache_cleared_cards (snd (ModUnionTableCardCache_ClearCards heap table)))"
proof -
  let ?c = "cache_cleared_cards (snd (ModUnionTableCardCache_ClearCards heap table))"
  have kept: "sorted ?c \<and> distinct ?c"
    unfolding CardCache_ClearCards_cleared
    by (rule sorted_fold_ModUnionClearCardSetVisitor [OF assms])
  moreover have "set ?c = set (cache_cleared_cards table) \<union>
                   set (DiscoveredDirty (GetCardTable heap) (table_space table))"
    unfolding CardCache_ClearCards_cleared set_fold_ModUnionClearCardSetVisitor DiscoveredDirty_def
    by auto
  ultimately have "?c = sorted_list_of_set (set (cache_cleared_cards table) \<union>
                     set (DiscoveredDirty (GetCardTable heap) (table_space table)))"
    by (metis sorted_list_of_set.idem_if_sorted_distinct)
  with kept show ?thesis
    by simp
qed

theorem CardCache_ClearCards_ascending_witness:
  "sorted (cache_cleared_cards example_cache_table_cleared) \<and>
   distinct (cache_cleared_cards example_cache_table_cleared) \<and>
   cache_cleared_cards
     (snd (ModUnionTableCardCache_ClearCards example_heap_redirtied example_cache_table_cleared)) =
     [1, 2]"
proof -
  have c: "cache_cleared_cards example_cache_table_cleared = [2]"
    by code_simp
  have d: "DiscoveredDirty (GetCardTable example_heap_redirtied)
             (table_space example_cache_table_cleared) = [1]"
    by code_simp
  have s: "sorted (cache_cleared_cards example_cache_table_cleared) \<and>
           distinct (cache_cleared_cards example_cache_table_cleared)"
    by (simp add: c)
  have "sorted_list_of_set {2, 1 :: nat} = [1, 2]"
    by code_simp
  with CardCache_ClearCards_ascending [OF s, of example_heap_redirtied, THEN conjunct1] s
  show ?thesis
    by (simp add: c d)
qed

section \<open>UpdateAndMarkReferences\<close>

subsection \<open>The recomputation reads the heap and leaves it as it is\<close>

lemma VisitFields_AddToReferenceArrayVisitor:
  "VisitFields obj (AddToReferenceArrayVisitor AddReference) offsets (heap, acc) =
     (heap, acc @ map (GetFieldObjectAddr obj) (filter (FieldQualifies AddReference heap obj) offsets))"
  by (induction offsets arbitrary: acc)
    (simp_all add: AddToReferenceArrayVisitor_def FieldQualifies_def)

lemma ModUnionReferenceVisitor_eq:
  "ModUnionReferenceVisitor AddReference obj (heap, acc) =
     (heap, acc @ QualifyingSlotsOf AddReference heap obj)"
  by (simp add: ModUnionReferenceVisitor_def VisitObjectReferences_def
      VisitFields_AddToReferenceArrayVisitor QualifyingSlotsOf_def)

lemma fold_ModUnionReferenceVisitor:
  "fold (ModUnionReferenceVisitor AddReference) objs (heap, acc) =
     (heap, acc @ concat (map (QualifyingSlotsOf AddReference heap) objs))"
  by (induction objs arbitrary: acc) (simp_all add: ModUnionReferenceVisitor_eq)

lemma CardsReferences_eq:
  "CardsReferences AddReference bitmap card_addr heap =
     (heap, QualifyingSlots AddReference heap bitmap card_addr)"
  by (simp add: CardsReferences_def VisitMarkedRange_def Let_def fold_ModUnionReferenceVisitor
      QualifyingSlots_def)

lemma QualifyingSlots_nonnull:
  assumes "slot \<in> set (QualifyingSlots AddReference heap bitmap card_addr)"
  shows "memory heap slot \<noteq> nullptr \<and>
         (\<exists>obj offset. offset \<in> set (reference_offsets heap obj) \<and>
            slot = GetFieldObjectAddr obj offset \<and> AddReference obj (memory heap slot))"
  using assms
  by (auto simp: QualifyingSlots_def QualifyingSlotsOf_def FieldQualifies_def)

subsection \<open>The map\<close>

lemma map_of_SafeMap_Put:
  "map_of m k = None \<Longrightarrow> map_of (SafeMap_Put k v m) = (map_of m)(k \<mapsto> v)"
  by (induction m) (auto simp: fun_upd_twist)

lemma map_of_SafeMap_assign:
  "map_of (SafeMap_assign k v m) = (if map_of m k = None then map_of m else (map_of m)(k \<mapsto> v))"
  by (induction m) (auto simp: fun_upd_twist)

lemma SafeMap_find_StoreCard:
  "SafeMap_find k (StoreCard card_addr v refs) =
     (if k = card_addr
      then (if SafeMap_find card_addr refs = None \<and> v = [] then None else Some v)
      else SafeMap_find k refs)"
  by (auto simp: StoreCard_def SafeMap_find_def map_of_SafeMap_Put map_of_SafeMap_assign
      split: option.splits)

lemma RecomputeCards_Cons:
  "RecomputeCards AddReference (card_addr # cards) (heap, refs) =
     (case FindContinuousSpaceFromObject heap (AddrFromCard (GetCardTable heap) card_addr) of
        None \<Rightarrow> Inl (NullSpace (AddrFromCard (GetCardTable heap) card_addr))
      | Some found_space \<Rightarrow>
          RecomputeCards AddReference cards
            (heap, StoreCard card_addr
                     (QualifyingSlots AddReference heap (GetLiveBitmap found_space) card_addr) refs))"
  by (simp add: Let_def CardsReferences_eq StoreCard_def split: option.splits)

lemma RecomputeCards_result:
  assumes "RecomputeCards AddReference cards (heap, refs) = Inr (heap', refs')"
  shows "heap' = heap \<and>
         (\<forall>c. SafeMap_find c refs' =
            (if c \<in> set cards then FreshEntry AddReference heap refs c else SafeMap_find c refs)) \<and>
         (\<forall>c \<in> set cards.
            FindContinuousSpaceFromObject heap (AddrFromCard (GetCardTable heap) c) \<noteq> None)"
  using assms
proof (induction cards arbitrary: refs)
  case Nil
  then show ?case by simp
next
  case (Cons card_addr cards)
  let ?start = "AddrFromCard (GetCardTable heap) card_addr"
  from Cons.prems obtain found_space where
    found: "FindContinuousSpaceFromObject heap ?start = Some found_space"
    by (auto simp only: RecomputeCards_Cons split: option.splits)
  let ?fresh = "QualifyingSlots AddReference heap (GetLiveBitmap found_space) card_addr"
  let ?refs = "StoreCard card_addr ?fresh refs"
  from Cons.prems found have rest: "RecomputeCards AddReference cards (heap, ?refs) = Inr (heap', refs')"
    by (simp only: RecomputeCards_Cons option.case)
  note ih = Cons.IH [OF rest]
  have none_iff: "SafeMap_find card_addr ?refs = None \<and> ?fresh = [] \<longleftrightarrow>
                  SafeMap_find card_addr refs = None \<and> ?fresh = []"
    by (simp add: SafeMap_find_StoreCard)
  have other: "c \<noteq> card_addr \<Longrightarrow> SafeMap_find c ?refs = SafeMap_find c refs" for c
    by (simp add: SafeMap_find_StoreCard)
  have fresh: "FreshEntry AddReference heap ?refs c = FreshEntry AddReference heap refs c" for c
  proof (cases "c = card_addr")
    case True
    then show ?thesis
      using none_iff found by (simp add: FreshEntry_def)
  next
    case False
    then show ?thesis
      by (simp add: FreshEntry_def other split: option.splits)
  qed
  have here: "SafeMap_find card_addr ?refs = FreshEntry AddReference heap refs card_addr"
    using found by (simp add: SafeMap_find_StoreCard FreshEntry_def)
  show ?case
    using ih found fresh here other by (auto simp del: RecomputeCards.simps)
qed

lemma UpdateAndMarkReferences_Inr:
  assumes "ModUnionTableReferenceCache_UpdateAndMarkReferences AddReference visitor arg heap table =
             Inr (heap', table', arg', count)"
  obtains heap1 refs where
    "RecomputeCards AddReference (cleared_cards table) (heap, references table) = Inr (heap1, refs)"
    "table' = table\<lparr>cleared_cards := [], references := refs\<rparr>"
    "MarkReferences visitor refs ((heap1, arg), 0) = ((heap', arg'), count)"
  using assms
  unfolding ModUnionTableReferenceCache_UpdateAndMarkReferences_def
  by (auto split: sum.splits prod.splits)

lemma UpdateAndMarkReferences_entry:
  assumes "ModUnionTableReferenceCache_UpdateAndMarkReferences AddReference visitor arg heap table =
             Inr (heap', table', arg', count)"
    and "card_addr \<in> set (cleared_cards table)"
  shows "\<exists>found_space.
           FindContinuousSpaceFromObject heap (AddrFromCard (GetCardTable heap) card_addr) =
             Some found_space \<and>
           RecordedSlots (references table') card_addr =
             QualifyingSlots AddReference heap (GetLiveBitmap found_space) card_addr \<and>
           SafeMap_find card_addr (references table') =
             (if SafeMap_find card_addr (references table) = None \<and>
                 QualifyingSlots AddReference heap (GetLiveBitmap found_space) card_addr = []
              then None
              else Some (QualifyingSlots AddReference heap (GetLiveBitmap found_space) card_addr))"
proof -
  from assms(1) obtain heap1 refs where
    re: "RecomputeCards AddReference (cleared_cards table) (heap, references table) = Inr (heap1, refs)"
    and t: "table' = table\<lparr>cleared_cards := [], references := refs\<rparr>"
    by (rule UpdateAndMarkReferences_Inr)
  from RecomputeCards_result [OF re] assms(2)
  have e: "SafeMap_find card_addr refs = FreshEntry AddReference heap (references table) card_addr"
    and f: "FindContinuousSpaceFromObject heap (AddrFromCard (GetCardTable heap) card_addr) \<noteq> None"
    by auto
  from f obtain found_space where
    "FindContinuousSpaceFromObject heap (AddrFromCard (GetCardTable heap) card_addr) = Some found_space"
    by auto
  with e t show ?thesis
    by (auto simp: RecordedSlots_def FreshEntry_def)
qed

text \<open>
  C2. For the reference-cache variant and every card in \<^verbatim>\<open>cleared_cards_\<close> at the start
  of \<^verbatim>\<open>UpdateAndMarkReferences\<close>, what the map records for the card after the call is
  exactly the freshly recomputed sequence of qualifying slot addresses: a prior entry is
  replaced, not appended to. A card that had no entry and has no qualifying slot gets
  none (line 283 to 286), which records the same, empty, sequence.
\<close>

theorem UpdateAndMarkReferences_replaces_entry:
  assumes "ModUnionTableReferenceCache_UpdateAndMarkReferences AddReference visitor arg heap table =
             Inr (heap', table', arg', count)"
    and "card_addr \<in> set (cleared_cards table)"
  shows "\<exists>found_space.
           FindContinuousSpaceFromObject heap (AddrFromCard (GetCardTable heap) card_addr) =
             Some found_space \<and>
           RecordedSlots (references table') card_addr =
             QualifyingSlots AddReference heap (GetLiveBitmap found_space) card_addr \<and>
           SafeMap_find card_addr (references table') =
             (if SafeMap_find card_addr (references table) = None \<and>
                 QualifyingSlots AddReference heap (GetLiveBitmap found_space) card_addr = []
              then None
              else Some (QualifyingSlots AddReference heap (GetLiveBitmap found_space) card_addr))"
  using assms by (rule UpdateAndMarkReferences_entry)

theorem UpdateAndMarkReferences_replaces_entry_witness:
  "\<exists>heap' table' arg' count.
     ModUnionTableReferenceCache_UpdateAndMarkReferences example_AddReference example_visitor ()
       example_heap example_table = Inr (heap', table', arg', count) \<and>
     1 \<in> set (cleared_cards example_table) \<and>
     SafeMap_find 1 (references example_table) = Some [6, 7] \<and>
     FindContinuousSpaceFromObject example_heap (AddrFromCard (GetCardTable example_heap) 1) =
       Some example_space \<and>
     QualifyingSlots example_AddReference example_heap (GetLiveBitmap example_space) 1 = [5] \<and>
     RecordedSlots (references table') 1 = [5] \<and>
     SafeMap_find 1 (references table') = Some [5]"
proof -
  have "case ModUnionTableReferenceCache_UpdateAndMarkReferences example_AddReference
               example_visitor () example_heap example_table of
          Inl e \<Rightarrow> False | Inr r \<Rightarrow> True"
    by code_simp
  then obtain heap' table' arg' count where run:
    "ModUnionTableReferenceCache_UpdateAndMarkReferences example_AddReference example_visitor ()
       example_heap example_table = Inr (heap', table', arg', count)"
    by (auto split: sum.splits)
  have cleared: "1 \<in> set (cleared_cards example_table)"
    by (simp add: example_table_def)
  have old: "SafeMap_find 1 (references example_table) = Some [6, 7]"
    by (simp add: example_table_def SafeMap_find_def)
  have "Contains example_space 4"
    by (simp add: Contains_def HasAddress_def Begin_def Limit_def example_space_def)
  then have found:
    "FindContinuousSpaceFromObject example_heap (AddrFromCard (GetCardTable example_heap) 1) =
       Some example_space"
    by (simp add: FindContinuousSpaceFromObject_def AddrFromCard_def kCardSize_def
        GetCardTable_def example_heap_def example_card_table_def)
  have fresh:
    "QualifyingSlots example_AddReference example_heap (GetLiveBitmap example_space) 1 = [5]"
    by code_simp
  from UpdateAndMarkReferences_replaces_entry [OF run cleared] found fresh old
  have "RecordedSlots (references table') 1 = [5] \<and>
        SafeMap_find 1 (references table') = Some [5]"
    by simp
  with run cleared old found fresh show ?thesis
    by blast
qed

text \<open>
  C3. For the reference-cache variant, \<^verbatim>\<open>cleared_cards_\<close> is empty after
  \<^verbatim>\<open>UpdateAndMarkReferences\<close> returns: no card that a preceding \<^verbatim>\<open>ClearCards\<close> put
  there is in it any more.
\<close>

theorem UpdateAndMarkReferences_empties_cleared_cards:
  assumes "ModUnionTableReferenceCache_UpdateAndMarkReferences AddReference visitor arg heap table =
             Inr (heap', table', arg', count)"
  shows "cleared_cards table' = [] \<and> card_addr \<notin> set (cleared_cards table')"
  using assms by (elim UpdateAndMarkReferences_Inr) simp

text \<open>
  The whole cycle on the small heap: card 2 is Dirty, \<^verbatim>\<open>ClearCards\<close> puts it into
  \<^verbatim>\<open>cleared_cards_\<close>, and it is gone after \<^verbatim>\<open>UpdateAndMarkReferences\<close>.
\<close>

theorem UpdateAndMarkReferences_empties_cleared_cards_witness:
  "\<exists>heap1 table1 heap' table' arg' count.
     ModUnionTableReferenceCache_ClearCards example_heap (example_table\<lparr>cleared_cards := []\<rparr>) =
       (heap1, table1) \<and>
     cleared_cards table1 = [2] \<and>
     ModUnionTableReferenceCache_UpdateAndMarkReferences example_AddReference example_visitor ()
       heap1 table1 = Inr (heap', table', arg', count) \<and>
     cleared_cards table' = [] \<and> 2 \<notin> set (cleared_cards table')"
proof -
  obtain heap1 table1 where clear:
    "ModUnionTableReferenceCache_ClearCards example_heap (example_table\<lparr>cleared_cards := []\<rparr>) =
       (heap1, table1)"
    by (cases "ModUnionTableReferenceCache_ClearCards example_heap
                 (example_table\<lparr>cleared_cards := []\<rparr>)")
  have "case ModUnionTableReferenceCache_ClearCards example_heap
               (example_table\<lparr>cleared_cards := []\<rparr>) of
          (heap1, table1) \<Rightarrow>
            cleared_cards table1 = [2] \<and>
            (case ModUnionTableReferenceCache_UpdateAndMarkReferences example_AddReference
                    example_visitor () heap1 table1 of
               Inl e \<Rightarrow> False | Inr r \<Rightarrow> True)"
    by code_simp
  with clear obtain heap' table' arg' count where
    cleared: "cleared_cards table1 = [2]" and run:
    "ModUnionTableReferenceCache_UpdateAndMarkReferences example_AddReference example_visitor ()
       heap1 table1 = Inr (heap', table', arg', count)"
    by (auto split: sum.splits)
  from UpdateAndMarkReferences_empties_cleared_cards [OF run, of 2] clear cleared run
  show ?thesis
    by blast
qed

text \<open>
  C4. A second \<^verbatim>\<open>UpdateAndMarkReferences\<close> of the reference-cache variant, on the heap
  and the table the first one left (no mutator write and no \<^verbatim>\<open>ClearCards\<close> in
  between, so \<^verbatim>\<open>cleared_cards_\<close> is empty), returns and leaves the map from card
  addresses to slot sequences as the first call left it.
\<close>

theorem UpdateAndMarkReferences_twice:
  assumes "ModUnionTableReferenceCache_UpdateAndMarkReferences AddReference visitor arg heap table =
             Inr (heap1, table1, arg1, count1)"
  shows "\<exists>heap2 table2 arg2 count2.
           ModUnionTableReferenceCache_UpdateAndMarkReferences AddReference visitor arg1 heap1 table1 =
             Inr (heap2, table2, arg2, count2) \<and>
           references table2 = references table1"
proof -
  have "cleared_cards table1 = []"
    using assms by (elim UpdateAndMarkReferences_Inr) simp
  then show ?thesis
    unfolding ModUnionTableReferenceCache_UpdateAndMarkReferences_def
    by (auto split: prod.splits)
qed

theorem UpdateAndMarkReferences_twice_witness:
  "\<exists>heap1 table1 arg1 count1 heap2 table2 arg2 count2.
     ModUnionTableReferenceCache_UpdateAndMarkReferences example_AddReference example_visitor ()
       example_heap example_table = Inr (heap1, table1, arg1, count1) \<and>
     references table1 = [(1, [5]), (2, [9]), (3, [13])] \<and>
     ModUnionTableReferenceCache_UpdateAndMarkReferences example_AddReference example_visitor arg1
       heap1 table1 = Inr (heap2, table2, arg2, count2) \<and>
     references table2 = [(1, [5]), (2, [9]), (3, [13])]"
proof -
  have "case ModUnionTableReferenceCache_UpdateAndMarkReferences example_AddReference
               example_visitor () example_heap example_table of
          Inl e \<Rightarrow> False
        | Inr (heap1, table1, arg1, count1) \<Rightarrow>
            references table1 = [(1, [5]), (2, [9]), (3, [13])]"
    by code_simp
  then obtain heap1 table1 arg1 count1 where run:
    "ModUnionTableReferenceCache_UpdateAndMarkReferences example_AddReference example_visitor ()
       example_heap example_table = Inr (heap1, table1, arg1, count1)"
    and refs: "references table1 = [(1, [5]), (2, [9]), (3, [13])]"
    by (auto split: sum.splits)
  from UpdateAndMarkReferences_twice [OF run] run refs show ?thesis
    by (metis (no_types))
qed

subsection \<open>The visitor is not called on null\<close>

lemma fold_invariant:
  assumes "\<And>x s. P s \<Longrightarrow> P (f x s)" and "P s"
  shows "P (fold f xs s)"
  using assms(2) by (induction xs arbitrary: s) (simp_all add: assms(1))

lemma Recording_called:
  "fst (snd (Recording visitor obj called)) = fst called @ [obj]"
  by (simp add: Recording_def case_prod_unfold)

lemma VisitSlots_Recording:
  "nullptr \<notin> set (fst arg) \<Longrightarrow>
   nullptr \<notin> set (fst (snd (VisitSlots (Recording visitor) slots (heap, arg))))"
proof (induction slots arbitrary: heap arg)
  case Nil
  then show ?case by simp
next
  case (Cons obj_ptr slots)
  show ?case
  proof (cases "memory heap obj_ptr = nullptr")
    case True
    then show ?thesis
      using Cons.IH [OF Cons.prems] by simp
  next
    case False
    obtain new_obj arg' where v: "Recording visitor (memory heap obj_ptr) arg = (new_obj, arg')"
      by (cases "Recording visitor (memory heap obj_ptr) arg")
    have "fst arg' = fst arg @ [memory heap obj_ptr]"
      using Recording_called [of visitor "memory heap obj_ptr" arg] v by simp
    with False Cons.prems have "nullptr \<notin> set (fst arg')"
      by simp
    from Cons.IH [OF this] False v show ?thesis
      by (simp add: Let_def)
  qed
qed

lemma MarkReferences_Recording:
  "nullptr \<notin> set (fst (snd hs)) \<Longrightarrow>
   nullptr \<notin> set (fst (snd (fst (MarkReferences (Recording visitor) refs (hs, count)))))"
proof (induction refs arbitrary: hs count)
  case Nil
  then show ?case by simp
next
  case (Cons ref_pair refs)
  obtain heap arg where hs: "hs = (heap, arg)"
    by (cases hs)
  from Cons.prems hs have "nullptr \<notin> set (fst arg)"
    by simp
  then have "nullptr \<notin> set (fst (snd (VisitSlots (Recording visitor) (snd ref_pair) hs)))"
    unfolding hs by (rule VisitSlots_Recording)
  from Cons.IH [OF this] show ?case
    by simp
qed

lemma ModUnionUpdateObjectReferencesVisitor_Recording:
  "nullptr \<notin> set (fst (snd hs)) \<Longrightarrow>
   nullptr \<notin> set (fst (snd (ModUnionUpdateObjectReferencesVisitor (Recording visitor)
                               obj ref offset hs)))"
  by (simp add: ModUnionUpdateObjectReferencesVisitor_def Recording_called case_prod_unfold)

lemma VisitFields_Recording:
  "nullptr \<notin> set (fst (snd hs)) \<Longrightarrow>
   nullptr \<notin> set (fst (snd (VisitFields obj
     (ModUnionUpdateObjectReferencesVisitor (Recording visitor)) offsets hs)))"
proof (induction offsets arbitrary: hs)
  case Nil
  then show ?case by (cases hs) simp
next
  case (Cons offset offsets)
  obtain heap arg where hs: "hs = (heap, arg)"
    by (cases hs)
  have "nullptr \<notin> set (fst (snd (ModUnionUpdateObjectReferencesVisitor (Recording visitor) obj
          (memory heap (GetFieldObjectAddr obj offset)) offset hs)))"
    using Cons.prems by (rule ModUnionUpdateObjectReferencesVisitor_Recording)
  from Cons.IH [OF this] show ?case
    by (simp add: hs)
qed

lemma ModUnionScanImageRootVisitor_Recording:
  "nullptr \<notin> set (fst (snd hs)) \<Longrightarrow>
   nullptr \<notin> set (fst (snd (ModUnionScanImageRootVisitor (Recording visitor) root hs)))"
  unfolding ModUnionScanImageRootVisitor_def VisitObjectReferences_def
  by (rule VisitFields_Recording)

lemma CardCache_UpdateAndMarkReferences_Recording:
  "nullptr \<notin> set (fst (snd (ModUnionTableCardCache_UpdateAndMarkReferences
     (Recording visitor) ([], arg) heap table)))"
  unfolding ModUnionTableCardCache_UpdateAndMarkReferences_def
proof (rule fold_invariant [where P = "\<lambda>hs. nullptr \<notin> set (fst (snd hs))"])
  fix card_addr and hs :: "Heap \<times> addr list \<times> 'a"
  assume "nullptr \<notin> set (fst (snd hs))"
  then show "nullptr \<notin> set (fst (snd (
      let start = AddrFromCard (GetCardTable (fst hs)) card_addr
      in VisitMarkedRange (GetLiveBitmap (table_space table)) start
           (start + kCardSize (GetCardTable (fst hs)))
           (ModUnionScanImageRootVisitor (Recording visitor)) hs)))"
    unfolding Let_def VisitMarkedRange_def
    by (intro fold_invariant [where P = "\<lambda>hs. nullptr \<notin> set (fst (snd hs))"]
        ModUnionScanImageRootVisitor_Recording)
next
  show "nullptr \<notin> set (fst (snd (heap, [], arg)))"
    by simp
qed

text \<open>
  C10. During \<^verbatim>\<open>UpdateAndMarkReferences\<close> of either variant the visitor is never
  called on a null reference, and the recomputation of the reference-cache variant
  records a slot for a cleared card only when the field holds a non-null reference that
  \<^verbatim>\<open>AddReference\<close> accepts: a field holding null is not recorded, and the pass over
  the recorded slots skips a slot that holds null.
\<close>

theorem UpdateAndMarkReferences_never_null:
  "(\<forall>heap' table' called arg' count.
      ModUnionTableReferenceCache_UpdateAndMarkReferences AddReference (Recording visitor)
        ([], arg) heap table = Inr (heap', table', (called, arg'), count) \<longrightarrow>
      nullptr \<notin> set called \<and>
      (\<forall>card_addr \<in> set (cleared_cards table).
         \<forall>slot \<in> set (RecordedSlots (references table') card_addr).
           memory heap slot \<noteq> nullptr \<and>
           (\<exists>obj offset. offset \<in> set (reference_offsets heap obj) \<and>
              slot = GetFieldObjectAddr obj offset \<and> AddReference obj (memory heap slot)))) \<and>
   nullptr \<notin> set (fst (snd (ModUnionTableCardCache_UpdateAndMarkReferences
     (Recording visitor) ([], arg) heap cache_table)))"
proof (intro conjI allI impI ballI)
  fix heap' table' called arg' count
  assume run: "ModUnionTableReferenceCache_UpdateAndMarkReferences AddReference
    (Recording visitor) ([], arg) heap table = Inr (heap', table', (called, arg'), count)"
  then obtain heap1 refs where
    m: "MarkReferences (Recording visitor) refs ((heap1, ([], arg)), 0) =
          ((heap', (called, arg')), count)"
    by (rule UpdateAndMarkReferences_Inr)
  show "nullptr \<notin> set called"
    using MarkReferences_Recording [of "(heap1, ([], arg))" visitor refs 0] m by simp
  fix card_addr slot
  assume "card_addr \<in> set (cleared_cards table)"
    and slot: "slot \<in> set (RecordedSlots (references table') card_addr)"
  from UpdateAndMarkReferences_entry [OF run this(1)] obtain found_space where
    "RecordedSlots (references table') card_addr =
       QualifyingSlots AddReference heap (GetLiveBitmap found_space) card_addr"
    by blast
  with slot have "slot \<in> set (QualifyingSlots AddReference heap (GetLiveBitmap found_space) card_addr)"
    by simp
  from QualifyingSlots_nonnull [OF this]
  show "memory heap slot \<noteq> nullptr"
    and "\<exists>obj offset. offset \<in> set (reference_offsets heap obj) \<and>
           slot = GetFieldObjectAddr obj offset \<and> AddReference obj (memory heap slot)"
    by blast+
next
  show "nullptr \<notin> set (fst (snd (ModUnionTableCardCache_UpdateAndMarkReferences
     (Recording visitor) ([], arg) heap cache_table)))"
    by (rule CardCache_UpdateAndMarkReferences_Recording)
qed

text \<open>
  On the small heap the null field 7 of the object at 4 is dropped from the entry of
  card 1, the recorded slot 13 of card 3 holds null and is skipped, and the visitor is
  called on 20 and 24 only; the card-cache variant calls it on 24, the one non-null
  field under its cleared card 2.
\<close>

theorem UpdateAndMarkReferences_never_null_witness:
  "\<exists>heap' table' called arg' count.
     ModUnionTableReferenceCache_UpdateAndMarkReferences example_AddReference
       (Recording example_visitor) ([], ()) example_heap example_table =
       Inr (heap', table', (called, arg'), count) \<and>
     called = [20, 24] \<and> nullptr \<notin> set called \<and>
     memory example_heap 7 = nullptr \<and>
     RecordedSlots (references example_table) 1 = [6, 7] \<and>
     RecordedSlots (references table') 1 = [5] \<and>
     memory example_heap 5 \<noteq> nullptr \<and>
     memory example_heap 13 = nullptr \<and>
     RecordedSlots (references table') 3 = [13] \<and>
     cache_cleared_cards example_cache_table_cleared = [2] \<and>
     fst (snd (ModUnionTableCardCache_UpdateAndMarkReferences (Recording example_visitor)
                 ([], ()) example_heap example_cache_table_cleared)) = [24]"
proof -
  have "case ModUnionTableReferenceCache_UpdateAndMarkReferences example_AddReference
               (Recording example_visitor) ([], ()) example_heap example_table of
          Inl e \<Rightarrow> False
        | Inr (heap', table', (called, arg'), count) \<Rightarrow>
            called = [20, 24] \<and> RecordedSlots (references table') 1 = [5] \<and>
            RecordedSlots (references table') 3 = [13]"
    by code_simp
  then obtain heap' table' called arg' count where run:
    "ModUnionTableReferenceCache_UpdateAndMarkReferences example_AddReference
       (Recording example_visitor) ([], ()) example_heap example_table =
       Inr (heap', table', (called, arg'), count)"
    and res: "called = [20, 24]" "RecordedSlots (references table') 1 = [5]"
      "RecordedSlots (references table') 3 = [13]"
    by (auto split: sum.splits)
  have cleared: "1 \<in> set (cleared_cards example_table)"
    by (simp add: example_table_def)
  from UpdateAndMarkReferences_never_null
    [of example_AddReference example_visitor "()" example_heap example_table] run
  have part: "nullptr \<notin> set called \<and>
    (\<forall>card_addr \<in> set (cleared_cards example_table).
       \<forall>slot \<in> set (RecordedSlots (references table') card_addr).
         memory example_heap slot \<noteq> nullptr \<and>
         (\<exists>obj offset. offset \<in> set (reference_offsets example_heap obj) \<and>
            slot = GetFieldObjectAddr obj offset \<and>
            example_AddReference obj (memory example_heap slot)))"
    by blast
  then have called: "nullptr \<notin> set called"
    by blast
  from part cleared res(2) have five: "memory example_heap 5 \<noteq> nullptr"
    by fastforce
  have mem: "memory example_heap 7 = nullptr" "memory example_heap 13 = nullptr"
    by code_simp+
  have old: "RecordedSlots (references example_table) 1 = [6, 7]"
    by code_simp
  have cache: "cache_cleared_cards example_cache_table_cleared = [2]"
    "fst (snd (ModUnionTableCardCache_UpdateAndMarkReferences (Recording example_visitor)
                 ([], ()) example_heap example_cache_table_cleared)) = [24]"
    by code_simp+
  from run res called five mem old cache show ?thesis
    by blast
qed

section \<open>Verify\<close>

lemma FirstAbort_append:
  "FirstAbort heap (xs @ ys) = (if xs = [] then FirstAbort heap ys else FirstAbort heap xs)"
  by (cases xs) (simp_all add: FirstAbort_def)

lemma fold_stuck:
  assumes "\<And>x. f x (heap, Inl e) = (heap, Inl e)"
  shows "fold f xs (heap, Inl e) = (heap, Inl e)"
  by (induction xs) (simp_all add: assms)

lemma fold_abort:
  assumes step: "\<And>x. f x (heap, Inr ()) = (heap, FirstAbort heap (miss x))"
    and stuck: "\<And>x e. f x (heap, Inl e) = (heap, Inl e)"
  shows "fold f xs (heap, Inr ()) = (heap, FirstAbort heap (concat (map miss xs)))"
proof (induction xs)
  case Nil
  then show ?case by (simp add: FirstAbort_def)
next
  case (Cons x xs)
  show ?case
  proof (cases "miss x")
    case Nil
    then have "f x (heap, Inr ()) = (heap, Inr ())"
      using step [of x] by (simp add: FirstAbort_def)
    then show ?thesis
      using Cons.IH Nil by simp
  next
    case (Cons p ps)
    then have "f x (heap, Inr ()) = (heap, Inl (CheckAbort heap (fst p) (snd p)))"
      using step [of x] by (simp add: FirstAbort_def)
    then have "fold f (x # xs) (heap, Inr ()) = (heap, Inl (CheckAbort heap (fst p) (snd p)))"
      using fold_stuck [of f heap _ xs, OF stuck] by simp
    then show ?thesis
      using Cons by (simp add: FirstAbort_def)
  qed
qed

lemma CheckReferenceVisitor_stuck:
  "CheckReferenceVisitor AddReference reference_set obj ref offset (heap, Inl e) = (heap, Inl e)"
  by (simp add: CheckReferenceVisitor_def)

lemma CheckReferenceVisitor_step:
  "CheckReferenceVisitor AddReference reference_set obj ref offset (heap, Inr ()) =
     (heap, if Escapes AddReference reference_set obj ref then Inl (CheckAbort heap obj ref)
            else Inr ())"
  by (simp add: CheckReferenceVisitor_def CheckAbort_def Escapes_def split: option.splits)

lemma VisitFields_Check_stuck:
  "VisitFields obj (CheckReferenceVisitor AddReference reference_set) offsets (heap, Inl e) =
     (heap, Inl e)"
  by (induction offsets) (simp_all add: CheckReferenceVisitor_stuck)

lemma VisitFields_Check:
  "VisitFields obj (CheckReferenceVisitor AddReference reference_set) offsets (heap, Inr ()) =
     (heap, FirstAbort heap
        (filter (\<lambda>p. Escapes AddReference reference_set (fst p) (snd p))
           (map (\<lambda>offset. (obj, memory heap (GetFieldObjectAddr obj offset))) offsets)))"
  by (induction offsets)
    (simp_all add: CheckReferenceVisitor_step VisitFields_Check_stuck FirstAbort_def)

lemma ModUnionCheckReferences_stuck:
  "ModUnionCheckReferences AddReference reference_set obj (heap, Inl e) = (heap, Inl e)"
  by (simp add: ModUnionCheckReferences_def VisitObjectReferences_def VisitFields_Check_stuck)

lemma ModUnionCheckReferences_step:
  "ModUnionCheckReferences AddReference reference_set obj (heap, Inr ()) =
     (heap, FirstAbort heap (EscapedOf AddReference heap reference_set obj))"
  by (simp add: ModUnionCheckReferences_def VisitObjectReferences_def VisitFields_Check
      EscapedOf_def)

lemma fold_ModUnionCheckReferences_stuck:
  "fold (ModUnionCheckReferences AddReference reference_set) objs (heap, Inl e) = (heap, Inl e)"
  by (rule fold_stuck) (rule ModUnionCheckReferences_stuck)

lemma fold_ModUnionCheckReferences:
  "fold (ModUnionCheckReferences AddReference reference_set) objs (heap, Inr ()) =
     (heap, FirstAbort heap (concat (map (EscapedOf AddReference heap reference_set) objs)))"
  by (rule fold_abort) (rule ModUnionCheckReferences_step ModUnionCheckReferences_stuck)+

lemma VerifyCard_stuck:
  "VerifyCard AddReference table ref_pair (heap, Inl e) = (heap, Inl e)"
  by (simp add: VerifyCard_def Let_def VisitMarkedRange_def fold_ModUnionCheckReferences_stuck)

lemma VerifyCard_step:
  "VerifyCard AddReference table ref_pair (heap, Inr ()) =
     (heap, FirstAbort heap (EscapedUnderCard AddReference heap table ref_pair))"
  by (simp add: VerifyCard_def Let_def VisitMarkedRange_def EscapedUnderCard_def
      fold_ModUnionCheckReferences FirstAbort_def)

lemma fold_VerifyCard:
  "fold (VerifyCard AddReference table) refs (heap, Inr ()) =
     (heap, FirstAbort heap (concat (map (EscapedUnderCard AddReference heap table) refs)))"
  by (rule fold_abort) (rule VerifyCard_step VerifyCard_stuck)+

lemma Verify_eq:
  "ModUnionTableReferenceCache_Verify AddReference heap table =
     (if \<not> VerifyMarked heap (references table)
      then Inl (CHECK_failed ''heap_->IsLiveObjectLocked(*ref)'')
      else FirstAbort heap (EscapedReferences AddReference heap table))"
  by (simp add: ModUnionTableReferenceCache_Verify_def EscapedReferences_def fold_VerifyCard)

lemma EscapedReferences_iff:
  "(obj, ref) \<in> set (EscapedReferences AddReference heap table) \<longleftrightarrow>
     (\<exists>ref_pair \<in> set (references table).
        card_bytes (GetCardTable heap) (fst ref_pair) = kCardClean (GetCardTable heap) \<and>
        obj \<in> set (MarkedRange (GetLiveBitmap (table_space table))
                     (AddrFromCard (GetCardTable heap) (fst ref_pair))
                     (AddrFromCard (GetCardTable heap) (fst ref_pair) +
                      kCardSize (GetCardTable heap))) \<and>
        (\<exists>offset \<in> set (reference_offsets heap obj).
           ref = memory heap (GetFieldObjectAddr obj offset)) \<and>
        ref \<noteq> nullptr \<and> AddReference obj ref \<and>
        ref \<notin> memory heap ` set (snd ref_pair))"
  by (auto simp: EscapedReferences_def EscapedUnderCard_def EscapedOf_def Escapes_def)

lemma VerifyMarked_iff:
  "VerifyMarked heap refs \<longleftrightarrow>
     (\<forall>ref_pair \<in> set refs. \<forall>ref \<in> set (snd ref_pair). IsLiveObjectLocked heap (memory heap ref))"
  by (simp add: VerifyMarked_def list_all_iff)

lemma Verify_result:
  "ModUnionTableReferenceCache_Verify AddReference heap table =
     (if \<not> VerifyMarked heap (references table)
      then Inl (CHECK_failed ''heap_->IsLiveObjectLocked(*ref)'')
      else case EscapedReferences AddReference heap table of
             [] \<Rightarrow> Inr ()
           | p # ps \<Rightarrow> Inl (CheckAbort heap (fst p) (snd p)))"
  by (simp add: Verify_eq FirstAbort_def)

text \<open>
  C5. \<^verbatim>\<open>Verify\<close> of the reference-cache variant returns only when every recorded slot
  points to a live object and, for every card of the map whose byte is Clean, every
  qualifying reference of the marked objects under the card is among the objects its
  recorded slots point to. A recorded slot that points to no live object fails the
  \<^verbatim>\<open>CHECK\<close>. Otherwise the first reference that is absent from the recorded set stops
  the process: with the three \<^verbatim>\<open>INFO\<close> lines, the dump of the spaces and the
  \<^verbatim>\<open>FATAL\<close> line when the spaces of both objects are found.
\<close>

theorem Verify_aborts_on_escaped_reference:
  "(ModUnionTableReferenceCache_Verify AddReference heap table = Inr () \<longleftrightarrow>
      (\<forall>ref_pair \<in> set (references table). \<forall>slot \<in> set (snd ref_pair).
         IsLiveObjectLocked heap (memory heap slot)) \<and>
      (\<forall>ref_pair \<in> set (references table).
         card_bytes (GetCardTable heap) (fst ref_pair) = kCardClean (GetCardTable heap) \<longrightarrow>
         (\<forall>obj \<in> set (MarkedRange (GetLiveBitmap (table_space table))
                        (AddrFromCard (GetCardTable heap) (fst ref_pair))
                        (AddrFromCard (GetCardTable heap) (fst ref_pair) +
                         kCardSize (GetCardTable heap))).
            \<forall>offset \<in> set (reference_offsets heap obj).
              memory heap (GetFieldObjectAddr obj offset) \<noteq> nullptr \<and>
              AddReference obj (memory heap (GetFieldObjectAddr obj offset)) \<longrightarrow>
              memory heap (GetFieldObjectAddr obj offset) \<in> memory heap ` set (snd ref_pair)))) \<and>
   (\<not> VerifyMarked heap (references table) \<longrightarrow>
      ModUnionTableReferenceCache_Verify AddReference heap table =
        Inl (CHECK_failed ''heap_->IsLiveObjectLocked(*ref)'')) \<and>
   (\<forall>obj ref rest.
      VerifyMarked heap (references table) \<and>
      EscapedReferences AddReference heap table = (obj, ref) # rest \<longrightarrow>
      ModUnionTableReferenceCache_Verify AddReference heap table = Inl (CheckAbort heap obj ref) \<and>
      (\<forall>from_space to_space.
         FindContinuousSpaceFromObject heap obj = Some from_space \<and>
         FindContinuousSpaceFromObject heap ref = Some to_space \<longrightarrow>
         CheckAbort heap obj ref =
           LOG_FATAL
             [INFO_ObjectReferences obj ref,
              INFO_FromSpace (GetName from_space) (GetGcRetentionPolicy from_space),
              INFO_ToSpace (GetName to_space) (GetGcRetentionPolicy to_space),
              DumpSpaces,
              FATAL ''FATAL ERROR'']))"
proof (intro conjI)
  have "EscapedReferences AddReference heap table = [] \<longleftrightarrow>
          (\<forall>obj ref. (obj, ref) \<notin> set (EscapedReferences AddReference heap table))"
    by (cases "EscapedReferences AddReference heap table") auto
  also have "\<dots> \<longleftrightarrow>
      (\<forall>ref_pair \<in> set (references table).
         card_bytes (GetCardTable heap) (fst ref_pair) = kCardClean (GetCardTable heap) \<longrightarrow>
         (\<forall>obj \<in> set (MarkedRange (GetLiveBitmap (table_space table))
                        (AddrFromCard (GetCardTable heap) (fst ref_pair))
                        (AddrFromCard (GetCardTable heap) (fst ref_pair) +
                         kCardSize (GetCardTable heap))).
            \<forall>offset \<in> set (reference_offsets heap obj).
              memory heap (GetFieldObjectAddr obj offset) \<noteq> nullptr \<and>
              AddReference obj (memory heap (GetFieldObjectAddr obj offset)) \<longrightarrow>
              memory heap (GetFieldObjectAddr obj offset) \<in> memory heap ` set (snd ref_pair)))"
    unfolding EscapedReferences_iff by blast
  finally have esc: "EscapedReferences AddReference heap table = [] \<longleftrightarrow> \<dots>" .
  have "ModUnionTableReferenceCache_Verify AddReference heap table = Inr () \<longleftrightarrow>
          VerifyMarked heap (references table) \<and> EscapedReferences AddReference heap table = []"
    by (simp add: Verify_result split: list.splits)
  then show "ModUnionTableReferenceCache_Verify AddReference heap table = Inr () \<longleftrightarrow>
      (\<forall>ref_pair \<in> set (references table). \<forall>slot \<in> set (snd ref_pair).
         IsLiveObjectLocked heap (memory heap slot)) \<and>
      (\<forall>ref_pair \<in> set (references table).
         card_bytes (GetCardTable heap) (fst ref_pair) = kCardClean (GetCardTable heap) \<longrightarrow>
         (\<forall>obj \<in> set (MarkedRange (GetLiveBitmap (table_space table))
                        (AddrFromCard (GetCardTable heap) (fst ref_pair))
                        (AddrFromCard (GetCardTable heap) (fst ref_pair) +
                         kCardSize (GetCardTable heap))).
            \<forall>offset \<in> set (reference_offsets heap obj).
              memory heap (GetFieldObjectAddr obj offset) \<noteq> nullptr \<and>
              AddReference obj (memory heap (GetFieldObjectAddr obj offset)) \<longrightarrow>
              memory heap (GetFieldObjectAddr obj offset) \<in> memory heap ` set (snd ref_pair)))"
    unfolding esc VerifyMarked_iff .
next
  show "\<not> VerifyMarked heap (references table) \<longrightarrow>
      ModUnionTableReferenceCache_Verify AddReference heap table =
        Inl (CHECK_failed ''heap_->IsLiveObjectLocked(*ref)'')"
    by (simp add: Verify_result)
next
  show "\<forall>obj ref rest.
      VerifyMarked heap (references table) \<and>
      EscapedReferences AddReference heap table = (obj, ref) # rest \<longrightarrow>
      ModUnionTableReferenceCache_Verify AddReference heap table = Inl (CheckAbort heap obj ref) \<and>
      (\<forall>from_space to_space.
         FindContinuousSpaceFromObject heap obj = Some from_space \<and>
         FindContinuousSpaceFromObject heap ref = Some to_space \<longrightarrow>
         CheckAbort heap obj ref =
           LOG_FATAL
             [INFO_ObjectReferences obj ref,
              INFO_FromSpace (GetName from_space) (GetGcRetentionPolicy from_space),
              INFO_ToSpace (GetName to_space) (GetGcRetentionPolicy to_space),
              DumpSpaces,
              FATAL ''FATAL ERROR''])"
    by (simp add: Verify_result CheckAbort_def)
qed

theorem Verify_aborts_on_escaped_reference_witness:
  "ModUnionTableReferenceCache_Verify example_AddReference example_heap example_verify_table = Inr () \<and>
   VerifyMarked example_heap_unrecorded (references example_verify_table) \<and>
   EscapedReferences example_AddReference example_heap_unrecorded example_verify_table = [(4, 24)] \<and>
   ModUnionTableReferenceCache_Verify example_AddReference example_heap_unrecorded
       example_verify_table =
     Inl (LOG_FATAL
       [INFO_ObjectReferences 4 24,
        INFO_FromSpace ''zygote space'' kGcRetentionPolicyFullCollect,
        INFO_ToSpace ''alloc space'' kGcRetentionPolicyAlwaysCollect,
        DumpSpaces,
        FATAL ''FATAL ERROR''])"
proof -
  have ok: "ModUnionTableReferenceCache_Verify example_AddReference example_heap example_verify_table = Inr ()"
    by code_simp
  have marked: "VerifyMarked example_heap_unrecorded (references example_verify_table)"
    by code_simp
  have escaped:
    "EscapedReferences example_AddReference example_heap_unrecorded example_verify_table = [(4, 24)]"
    by code_simp
  have abort: "CheckAbort example_heap_unrecorded 4 24 =
     LOG_FATAL
       [INFO_ObjectReferences 4 24,
        INFO_FromSpace ''zygote space'' kGcRetentionPolicyFullCollect,
        INFO_ToSpace ''alloc space'' kGcRetentionPolicyAlwaysCollect,
        DumpSpaces,
        FATAL ''FATAL ERROR'']"
    by code_simp
  from Verify_aborts_on_escaped_reference
    [of example_AddReference example_heap_unrecorded example_verify_table]
  have "ModUnionTableReferenceCache_Verify example_AddReference example_heap_unrecorded
          example_verify_table = Inl (CheckAbort example_heap_unrecorded 4 24)"
    using marked escaped by blast
  with ok marked escaped abort show ?thesis
    by simp
qed

section \<open>The footprint limit\<close>

text \<open>The allocation of 8 MiB on the small space, once the limit is raised to the capacity.\<close>

lemma example_alloc_raised:
  "example_alloc 0x800000
     (RosAlloc_SetFootprintLimit (Capacity example_rosalloc_space) (rosalloc example_rosalloc_space)) =
   ((0x2000, 0x800000),
    \<lparr>rosalloc_base = 0x1000, rosalloc_footprint = 0x801000,
     rosalloc_footprint_limit = 0x1000000, page_release_mode = kPageReleaseModeSizeAndEnd\<rparr>)"
  by (simp add: example_alloc_def example_rosalloc_space_def RosAlloc_SetFootprintLimit_def
      Capacity_def)

text \<open>
  C6. \<^verbatim>\<open>AllocWithGrowth\<close> attempts the allocation with the footprint limit raised to
  the capacity and then sets the limit to the footprint the allocator reports after the
  attempt: \<^verbatim>\<open>GetFootprintLimit\<close> right after it returns that footprint, which is not
  below the realized footprint and is not the capacity unless the footprint itself has
  reached it.
\<close>

theorem AllocWithGrowth_footprint_limit:
  assumes "AllocWithGrowth kDebugSpaces alloc num_bytes s = Inr (result, s')"
  shows "GetFootprintLimit s' =
           RosAlloc_Footprint
             (snd (alloc num_bytes (RosAlloc_SetFootprintLimit (Capacity s) (rosalloc s)))) \<and>
         GetFootprintLimit s' = GetFootprint s' \<and>
         GetFootprint s' \<le> GetFootprintLimit s' \<and>
         (GetFootprint s' \<noteq> Capacity s \<longrightarrow> GetFootprintLimit s' \<noteq> Capacity s)"
  using assms
  unfolding AllocWithGrowth_def GetFootprintLimit_def GetFootprint_def
    RosAlloc_SetFootprintLimit_def RosAlloc_FootprintLimit_def RosAlloc_Footprint_def
  by (auto simp: Let_def split: prod.splits if_splits)

theorem AllocWithGrowth_footprint_limit_witness:
  "\<exists>result s'.
     AllocWithGrowth True example_alloc 0x800000 example_rosalloc_space = Inr (result, s') \<and>
     GetFootprintLimit example_rosalloc_space = 0x100000 \<and>
     fst (example_alloc 0x800000 (rosalloc example_rosalloc_space)) = (nullptr, 0) \<and>
     result = (0x2000, 0x800000) \<and>
     Capacity example_rosalloc_space = 0x1000000 \<and>
     GetFootprint s' = 0x801000 \<and>
     GetFootprintLimit s' = 0x801000"
proof -
  have cap: "Capacity example_rosalloc_space = 0x1000000"
    by (simp add: Capacity_def example_rosalloc_space_def)
  have limit: "GetFootprintLimit example_rosalloc_space = 0x100000"
    by (simp add: GetFootprintLimit_def RosAlloc_FootprintLimit_def example_rosalloc_space_def)
  have fail: "fst (example_alloc 0x800000 (rosalloc example_rosalloc_space)) = (nullptr, 0)"
    by (simp add: example_alloc_def example_rosalloc_space_def)
  have contains: "RosAllocSpace_Contains (example_rosalloc_space\<lparr>rosalloc := a\<rparr>) 0x2000" for a
    by (simp add: RosAllocSpace_Contains_def example_rosalloc_space_def)
  obtain s' where run:
    "AllocWithGrowth True example_alloc 0x800000 example_rosalloc_space =
       Inr ((0x2000, 0x800000), s')"
    by (simp add: AllocWithGrowth_def Let_def example_alloc_raised contains)
  note after = AllocWithGrowth_footprint_limit [OF run]
  have l: "GetFootprintLimit s' = 0x801000"
    using after [THEN conjunct1] by (simp add: example_alloc_raised RosAlloc_Footprint_def)
  have "GetFootprint s' = 0x801000"
    using after [THEN conjunct2, THEN conjunct1] l by metis
  note l this
  with run cap limit fail show ?thesis
    by blast
qed

text \<open>
  C7. \<^verbatim>\<open>SetFootprintLimit(x)\<close> sets the footprint limit to the larger of \<open>x\<close> and the
  realized footprint, so never below the footprint.
\<close>

theorem SetFootprintLimit_clamps:
  "GetFootprintLimit (SetFootprintLimit x s) = max x (GetFootprint s) \<and>
   GetFootprint (SetFootprintLimit x s) = GetFootprint s \<and>
   GetFootprint (SetFootprintLimit x s) \<le> GetFootprintLimit (SetFootprintLimit x s)"
  unfolding SetFootprintLimit_def GetFootprintLimit_def GetFootprint_def
    RosAlloc_SetFootprintLimit_def RosAlloc_FootprintLimit_def RosAlloc_Footprint_def
  by (auto simp: Let_def max_def)

section \<open>Create\<close>

text \<open>
  C9. When the memory map cannot be created or the allocator cannot be initialized,
  \<^verbatim>\<open>RosAllocSpace::Create\<close> logs an error and returns the null space; it does not
  abort.
\<close>

theorem Create_returns_null:
  assumes "CreateMemMap env name kPageSize initial_size growth_limit capacity requested_begin = None \<or>
           \<not> new_RosAlloc_succeeds env"
  shows "\<exists>lines message.
           Create env name initial_size growth_limit capacity requested_begin low_memory_mode =
             (lines, Inr None) \<and>
           lines \<noteq> [] \<and> last lines = ERROR message"
  using assms
  unfolding Create_def CreateRosAlloc_def
  by (auto simp: Let_def split: option.splits prod.splits)

theorem Create_returns_null_witness:
  "CreateMemMap example_env ''main rosalloc space'' kPageSize 0x1000 0x1000000 0x1000000 0 = None \<and>
   (\<exists>lines message.
      Create example_env ''main rosalloc space'' 0x1000 0x1000000 0x1000000 0 False =
        (lines, Inr None) \<and>
      lines \<noteq> [] \<and> last lines = ERROR message) \<and>
   CreateMemMap example_env_no_allocator ''main rosalloc space'' kPageSize 0x1000 0x1000000
     0x1000000 0 \<noteq> None \<and>
   \<not> new_RosAlloc_succeeds example_env_no_allocator \<and>
   (\<exists>lines message.
      Create example_env_no_allocator ''main rosalloc space'' 0x1000 0x1000000 0x1000000 0 False =
        (lines, Inr None) \<and>
      lines \<noteq> [] \<and> last lines = ERROR message)"
proof -
  have none:
    "CreateMemMap example_env ''main rosalloc space'' kPageSize 0x1000 0x1000000 0x1000000 0 = None"
    by (simp add: example_env_def)
  have some:
    "CreateMemMap example_env_no_allocator ''main rosalloc space'' kPageSize 0x1000 0x1000000
       0x1000000 0 \<noteq> None"
    by (simp add: example_env_no_allocator_def)
  have failed: "\<not> new_RosAlloc_succeeds example_env_no_allocator"
    by (simp add: example_env_no_allocator_def)
  from Create_returns_null
    [of example_env "''main rosalloc space''" "0x1000" "0x1000000" "0x1000000" 0 False] none
  have first: "\<exists>lines message.
      Create example_env ''main rosalloc space'' 0x1000 0x1000000 0x1000000 0 False =
        (lines, Inr None) \<and>
      lines \<noteq> [] \<and> last lines = ERROR message"
    by blast
  from Create_returns_null
    [of example_env_no_allocator "''main rosalloc space''" "0x1000" "0x1000000" "0x1000000" 0 False]
    failed
  have second: "\<exists>lines message.
      Create example_env_no_allocator ''main rosalloc space'' 0x1000 0x1000000 0x1000000 0 False =
        (lines, Inr None) \<and>
      lines \<noteq> [] \<and> last lines = ERROR message"
    by blast
  from none first some failed second show ?thesis
    by blast
qed

end
